theory Spec2Isabelle
  imports Main
begin

section \<open>Python strings\<close>

text \<open>
  A Python \<^verbatim>\<open>str\<close> is modelled as a \<^typ>\<open>string\<close>; a \<^typ>\<open>char\<close> stands for a code
  point below 256.  The characters that \<^verbatim>\<open>cif.py\<close> tests for get a name.
\<close>

abbreviation SQ :: char where "SQ \<equiv> CHR 0x27"
abbreviation DQ :: char where "DQ \<equiv> CHR 0x22"
abbreviation LF :: char where "LF \<equiv> CHR 0x0A"
abbreviation CR :: char where "CR \<equiv> CHR 0x0D"
abbreviation TAB :: char where "TAB \<equiv> CHR 0x09"
abbreviation NUL :: char where "NUL \<equiv> CHR 0x00"

text \<open>\<^verbatim>\<open>str.isspace\<close> on one character (code points below 256).  The same characters
  are what \<^verbatim>\<open>\s\<close> matches in a \<^verbatim>\<open>str\<close> pattern and what \<^verbatim>\<open>strip()\<close> and \<^verbatim>\<open>split()\<close>
  take for white space.\<close>

definition isspace :: "char \<Rightarrow> bool" where
  "isspace c \<longleftrightarrow>
     c \<in> set [TAB, LF, CHR 0x0B, CHR 0x0C, CR, CHR 0x1C, CHR 0x1D, CHR 0x1E, CHR 0x1F,
               CHR '' '', CHR 0x85, CHR 0xA0]"

text \<open>The line boundaries of \<^verbatim>\<open>str.splitlines\<close> (code points below 256).\<close>

definition is_linebreak :: "char \<Rightarrow> bool" where
  "is_linebreak c \<longleftrightarrow>
     c \<in> set [LF, CHR 0x0B, CHR 0x0C, CR, CHR 0x1C, CHR 0x1D, CHR 0x1E, CHR 0x85]"

text \<open>\<^verbatim>\<open>s.strip()\<close>\<close>

definition strip :: "string \<Rightarrow> string" where
  "strip s = rev (dropWhile isspace (rev (dropWhile isspace s)))"

text \<open>\<^verbatim>\<open>s.startswith(p)\<close>\<close>

definition startswith :: "string \<Rightarrow> string \<Rightarrow> bool" where
  "startswith s p \<longleftrightarrow> take (length p) s = p"

text \<open>\<^verbatim>\<open>s.find(c)\<close> for a one-character \<^verbatim>\<open>c\<close>: the first index, or -1.\<close>

fun find_from :: "char \<Rightarrow> string \<Rightarrow> int \<Rightarrow> int" where
  "find_from c [] i = -1"
| "find_from c (x # xs) i = (if x = c then i else find_from c xs (i + 1))"

definition find_char :: "string \<Rightarrow> char \<Rightarrow> int" where
  "find_char s c = find_from c s 0"

text \<open>\<^verbatim>\<open>s[a:b]\<close> with Python's treatment of negative and out-of-range bounds.\<close>

definition slice_index :: "nat \<Rightarrow> int \<Rightarrow> nat" where
  "slice_index n i = (if i < 0 then nat (max 0 (int n + i)) else min n (nat i))"

definition slice :: "'a list \<Rightarrow> int \<Rightarrow> int \<Rightarrow> 'a list" where
  "slice s a b =
     (let lo = slice_index (length s) a; hi = slice_index (length s) b
      in take (hi - lo) (drop lo s))"

text \<open>\<^verbatim>\<open>s.split(sep)\<close> for a one-character separator: empty pieces are kept.\<close>

fun split_on :: "char \<Rightarrow> string \<Rightarrow> string list" where
  "split_on sep [] = [[]]"
| "split_on sep (c # cs) =
     (if c = sep then [] # split_on sep cs
      else (case split_on sep cs of p # ps \<Rightarrow> (c # p) # ps | [] \<Rightarrow> [[c]]))"

text \<open>\<^verbatim>\<open>s.split()\<close>: the maximal runs of characters that are not white space.\<close>

function split_ws :: "string \<Rightarrow> string list" where
  "split_ws s =
     (let s' = dropWhile isspace s
      in if s' = [] then []
         else takeWhile (\<lambda>c. \<not> isspace c) s' # split_ws (dropWhile (\<lambda>c. \<not> isspace c) s'))"
  by pat_completeness auto
termination
proof (relation "measure length")
  fix s s' :: string
  assume s': "s' = dropWhile isspace s" and ne: "s' \<noteq> []"
  from ne have "\<not> isspace (hd s')"
    unfolding s' by (rule hd_dropWhile)
  with ne have "length (dropWhile (\<lambda>c. \<not> isspace c) s') < length s'"
    by (cases s') (simp_all add: le_imp_less_Suc length_dropWhile_le)
  moreover have "length s' \<le> length s"
    unfolding s' by (rule length_dropWhile_le)
  ultimately show "(dropWhile (\<lambda>c. \<not> isspace c) s', s) \<in> measure length"
    by simp
qed simp

declare split_ws.simps [simp del]

text \<open>\<^verbatim>\<open>s.splitlines()\<close>: a line ends at a line boundary, \<^verbatim>\<open>\r\n\<close> counts as one boundary,
  and no empty line is produced after the last boundary.\<close>

function splitlines :: "string \<Rightarrow> string list" where
  "splitlines s =
     (if s = [] then []
      else takeWhile (\<lambda>c. \<not> is_linebreak c) s #
        (case dropWhile (\<lambda>c. \<not> is_linebreak c) s of
           [] \<Rightarrow> []
         | b # r \<Rightarrow> splitlines (if b = CR \<and> r \<noteq> [] \<and> hd r = LF then tl r else r)))"
  by pat_completeness auto
termination
proof (relation "measure length")
  fix s r :: string and b :: char
  assume "dropWhile (\<lambda>c. \<not> is_linebreak c) s = b # r"
  then have "Suc (length r) \<le> length s"
    using length_dropWhile_le [of "\<lambda>c. \<not> is_linebreak c" s] by simp
  moreover have "length (tl r) \<le> length r" by simp
  ultimately show "(if b = CR \<and> r \<noteq> [] \<and> hd r = LF then tl r else r, s) \<in> measure length"
    by auto
qed simp

declare splitlines.simps [simp del]

text \<open>\<^verbatim>\<open>sep.join(xs)\<close>\<close>

fun join :: "string \<Rightarrow> string list \<Rightarrow> string" where
  "join sep [] = []"
| "join sep [x] = x"
| "join sep (x # y # ys) = x @ sep @ join sep (y # ys)"

text \<open>\<^verbatim>\<open>s.ljust(n)\<close>\<close>

definition ljust :: "string \<Rightarrow> nat \<Rightarrow> string" where
  "ljust s n = s @ replicate (n - length s) CHR '' ''"

text \<open>\<^verbatim>\<open>str(n)\<close> for an integer.\<close>

definition digit_char :: "nat \<Rightarrow> char" where
  "digit_char d = char_of (48 + d)"

fun str_nat :: "nat \<Rightarrow> string" where
  "str_nat n = (if n < 10 then [digit_char n] else str_nat (n div 10) @ [digit_char (n mod 10)])"

declare str_nat.simps [simp del]

definition str_int :: "int \<Rightarrow> string" where
  "str_int i = (if i < 0 then CHR ''-'' # str_nat (nat (- i)) else str_nat (nat i))"

section \<open>Errors\<close>

text \<open>The exceptions that the code raises or lets through.  The two classes of
  \<^verbatim>\<open>biotite.file\<close> and \<^verbatim>\<open>ValueError\<close> carry their message.\<close>

datatype error =
    SerializationError string
  | DeserializationError string
  | ValueError string
  | TypeError
  | IndexError
  | KeyError
  | StopIteration

text \<open>Sequencing of a computation that may raise.\<close>

definition bind :: "error + 'a \<Rightarrow> ('a \<Rightarrow> error + 'b) \<Rightarrow> error + 'b" where
  "bind r f = (case r of Inl e \<Rightarrow> Inl e | Inr x \<Rightarrow> f x)"

text \<open>A list comprehension whose body may raise: the first exception ends it.\<close>

fun mapM :: "('a \<Rightarrow> error + 'b) \<Rightarrow> 'a list \<Rightarrow> error + 'b list" where
  "mapM f [] = Inr []"
| "mapM f (x # xs) = bind (f x) (\<lambda>y. bind (mapM f xs) (\<lambda>ys. Inr (y # ys)))"

section \<open>Dictionaries\<close>

text \<open>A \<^verbatim>\<open>dict\<close> keeps its keys in insertion order, and the order decides the order
  of the serialized text, so a dictionary is an association list with distinct keys.\<close>

type_synonym ('k, 'v) dict = "('k \<times> 'v) list"

text \<open>\<^verbatim>\<open>d[k] = v\<close>: an existing key keeps its position.\<close>

fun dict_set :: "'k \<Rightarrow> 'v \<Rightarrow> ('k, 'v) dict \<Rightarrow> ('k, 'v) dict" where
  "dict_set k v [] = [(k, v)]"
| "dict_set k v ((k', v') # d) = (if k' = k then (k, v) # d else (k', v') # dict_set k v d)"

text \<open>\<^verbatim>\<open>del d[k]\<close> on a key that is present.\<close>

fun dict_del :: "'k \<Rightarrow> ('k, 'v) dict \<Rightarrow> ('k, 'v) dict" where
  "dict_del k [] = []"
| "dict_del k ((k', v') # d) = (if k' = k then d else (k', v') # dict_del k d)"

text \<open>\<^verbatim>\<open>d[k]\<close>\<close>

definition dict_get :: "('k, 'v) dict \<Rightarrow> 'k \<Rightarrow> error + 'v" where
  "dict_get d k = (case map_of d k of None \<Rightarrow> Inl KeyError | Some v \<Rightarrow> Inr v)"

section \<open>Module-level helpers of \<^verbatim>\<open>cif.py\<close>\<close>

text \<open>
  \<^verbatim>\<open>
  def _quote(value):
      if len(value) == 0:
          return "''"
      elif len(value) >= 2 and value[0] == value[-1] == "'":
          return value
      elif len(value) >= 2 and value[0] == value[-1] == '"':
          return value
      elif value[0] == "_":
          return "'" + value + "'"
      elif "'" in value:
          return '"' + value + '"'
      elif '"' in value:
          return "'" + value + "'"
      elif " " in value:
          return "'" + value + "'"
      elif "\t" in value:
          return "'" + value + "'"
      elif "\n" in value:
          return "'" + value + "'"
      else:
          return value
  \<close>
\<close>

definition quote :: "string \<Rightarrow> string" where
  "quote v =
     (if length v = 0 then [SQ, SQ]
      else if length v \<ge> 2 \<and> hd v = SQ \<and> last v = SQ then v
      else if length v \<ge> 2 \<and> hd v = DQ \<and> last v = DQ then v
      else if hd v = CHR ''_'' then [SQ] @ v @ [SQ]
      else if SQ \<in> set v then [DQ] @ v @ [DQ]
      else if DQ \<in> set v then [SQ] @ v @ [SQ]
      else if CHR '' '' \<in> set v then [SQ] @ v @ [SQ]
      else if TAB \<in> set v then [SQ] @ v @ [SQ]
      else if LF \<in> set v then [SQ] @ v @ [SQ]
      else v)"

text \<open>The quoting rule in the words of the specification, each case taking effect
  only where no earlier case applies.\<close>

definition wrapped_in :: "char \<Rightarrow> string \<Rightarrow> bool" where
  "wrapped_in q v \<longleftrightarrow> length v \<ge> 2 \<and> hd v = q \<and> last v = q"

definition quote_spec :: "string \<Rightarrow> string" where
  "quote_spec v =
     (if v = [] then [SQ, SQ]
      else if wrapped_in SQ v \<or> wrapped_in DQ v then v
      else if hd v = CHR ''_'' \<or> SQ \<in> set v then [DQ] @ v @ [DQ]
      else if DQ \<in> set v \<or> CHR '' '' \<in> set v \<or> TAB \<in> set v \<or> LF \<in> set v
        then [SQ] @ v @ [SQ]
      else v)"

text \<open>
  \<^verbatim>\<open>
  def _multiline(value):
      if "\n" in value:
          return "\n;" + value + "\n;\n"
      return value
  \<close>
\<close>

definition multiline :: "string \<Rightarrow> string" where
  "multiline v = (if LF \<in> set v then [LF] @ '';'' @ v @ [LF] @ '';'' @ [LF] else v)"

text \<open>
  \<^verbatim>\<open>
  def _is_empty(line):
      return len(line.strip()) == 0 or line[0] == "#"
  \<close>
  Where the second test is reached the line is not empty, so \<^verbatim>\<open>line[0]\<close> exists.
\<close>

definition is_empty :: "string \<Rightarrow> bool" where
  "is_empty line \<longleftrightarrow> length (strip line) = 0 \<or> hd line = CHR ''#''"

text \<open>
  \<^verbatim>\<open>
  def _is_loop_start(line):
      return line.startswith("loop_")
  \<close>
\<close>

definition is_loop_start :: "string \<Rightarrow> bool" where
  "is_loop_start line \<longleftrightarrow> startswith line ''loop_''"

text \<open>
  \<^verbatim>\<open>
  def _parse_data_block_name(line):
      if line.startswith("data_"):
          return line[5:]
      else:
          return None
  \<close>
\<close>

definition parse_data_block_name :: "string \<Rightarrow> string option" where
  "parse_data_block_name line = (if startswith line ''data_'' then Some (drop 5 line) else None)"

text \<open>
  \<^verbatim>\<open>
  def _parse_category_name(line):
      if line[0] != "_":
          return None
      else:
          return line[1 : line.find(".")]
  \<close>
  \<^verbatim>\<open>line[0]\<close> raises \<^verbatim>\<open>IndexError\<close> on the empty string.
\<close>

definition parse_category_name :: "string \<Rightarrow> error + string option" where
  "parse_category_name line =
     (case line of
        [] \<Rightarrow> Inl IndexError
      | c # _ \<Rightarrow> if c \<noteq> CHR ''_'' then Inr None
                else Inr (Some (slice line 1 (find_char line CHR ''.''))))"

subsection \<open>The tokenizer\<close>

text \<open>
  \<^verbatim>\<open>
  def _split_one_line(line):
      single_quote_pattern = r"('(?:'(?! )|[^'])*')(?:\s|$)"
      double_quote_pattern = r'("(?:"(?! )|[^"])*")(?:\s|$)'
      unquoted_pattern = r"([^\s]+)"
      combined_pattern = (
          f"{single_quote_pattern}|{double_quote_pattern}|{unquoted_pattern}"
      )
      matches = re.findall(combined_pattern, line)
      fields = []
      for match in matches:
          field = next(group for group in match if group)
          if field[0] == field[-1] == "'" or field[0] == field[-1] == '"':
              field = field[1:-1]
          fields.append(field)
      return fields
  \<close>
  The regular expression is run the way the backtracking matcher of \<^verbatim>\<open>re\<close> runs it.

  \<open>quoted_body q s\<close> matches \<^verbatim>\<open>(?:q(?! )|[^q])*q(?:\s|$)\<close> at the start of \<open>s\<close>, the text
  after an opening quote \<open>q\<close>: the starred group takes one more character when it can
  (any character but \<open>q\<close>, or a \<open>q\<close> that no blank follows) and the rest is matched
  after it; when that fails, the group stops and the closing \<open>q\<close> must stand here,
  followed by white space or by the end of the text.  The result is the number of
  characters up to and including the closing quote.  (\<^verbatim>\<open>$\<close> also matches before a final
  line feed, but there \<^verbatim>\<open>\s\<close>, which is tried first, matches already.)
\<close>

fun quoted_body :: "char \<Rightarrow> string \<Rightarrow> nat option" where
  "quoted_body q [] = None"
| "quoted_body q (c # cs) =
     (case (if c \<noteq> q \<or> (case cs of [] \<Rightarrow> True | d # _ \<Rightarrow> d \<noteq> CHR '' '')
            then quoted_body q cs else None) of
        Some n \<Rightarrow> Some (Suc n)
      | None \<Rightarrow>
          if c = q \<and> (case cs of [] \<Rightarrow> True | d # _ \<Rightarrow> isspace d) then Some 1 else None)"

text \<open>One match of the combined pattern at the start of \<open>s\<close>: the group that is not
  empty, and the offset where the match ends.  The alternatives are tried in the order
  of the pattern; a quoted alternative takes the white space character after the
  closing quote into the match.\<close>

definition match_quoted :: "char \<Rightarrow> string \<Rightarrow> (string \<times> nat) option" where
  "match_quoted q s =
     (case s of
        [] \<Rightarrow> None
      | c # cs \<Rightarrow>
          if c = q then
            (case quoted_body q cs of
               None \<Rightarrow> None
             | Some n \<Rightarrow> Some (take (Suc n) s, min (length s) (n + 2)))
          else None)"

definition match_unquoted :: "string \<Rightarrow> (string \<times> nat) option" where
  "match_unquoted s =
     (let w = takeWhile (\<lambda>c. \<not> isspace c) s in if w = [] then None else Some (w, length w))"

definition match_field :: "string \<Rightarrow> (string \<times> nat) option" where
  "match_field s =
     (case match_quoted SQ s of
        Some m \<Rightarrow> Some m
      | None \<Rightarrow>
          (case match_quoted DQ s of
             Some m \<Rightarrow> Some m
           | None \<Rightarrow> match_unquoted s))"

text \<open>\<^verbatim>\<open>re.findall\<close>: the matches from left to right; where no match starts the scan
  moves on by one character, after a match it goes on where the match ended.\<close>

function findall :: "string \<Rightarrow> string list" where
  "findall [] = []"
| "findall (c # cs) =
     (case match_field (c # cs) of
        None \<Rightarrow> findall cs
      | Some (g, e) \<Rightarrow> g # findall (drop (e - 1) cs))"
  by pat_completeness auto
termination
  by (relation "measure length") auto

text \<open>The quotes around a field are taken off.\<close>

definition unquote_field :: "string \<Rightarrow> string" where
  "unquote_field field =
     (if (hd field = last field \<and> last field = SQ) \<or> (hd field = last field \<and> last field = DQ)
      then slice field 1 (-1) else field)"

definition split_one_line :: "string \<Rightarrow> string list" where
  "split_one_line line = map unquote_field (findall line)"

text \<open>
  \<^verbatim>\<open>
  def _to_single(lines, is_looped):
      processed_lines = [None] * len(lines)
      in_i = 0
      out_i = 0
      while in_i < len(lines):
          if lines[in_i][0] == ";":
              multi_line_str = lines[in_i][1:]
              j = in_i + 1
              while lines[j] != ";":
                  multi_line_str += "\n" + lines[j]
                  j += 1
              if is_looped:
                  processed_lines[out_i] = _quote(multi_line_str)
                  out_i += 1
              else:
                  processed_lines[out_i - 1] += " " + _quote(multi_line_str)
              in_i = j + 1
          elif not is_looped and lines[in_i][0] != "_":
              processed_lines[out_i - 1] += " " + lines[in_i]
              in_i += 1
          else:
              processed_lines[out_i] = lines[in_i]
              in_i += 1
              out_i += 1
      return [line for line in processed_lines if line is not None]
  \<close>
  The entries of \<^verbatim>\<open>processed_lines\<close> that are not \<^verbatim>\<open>None\<close> are those below \<^verbatim>\<open>out_i\<close>; the
  model keeps them as the list \<open>out\<close>.  With \<^verbatim>\<open>out_i = 0\<close> the index \<^verbatim>\<open>out_i - 1\<close> reads the last
  entry, which is \<^verbatim>\<open>None\<close>, and \<^verbatim>\<open>+=\<close> raises \<^verbatim>\<open>TypeError\<close>.  The inner loop raises
  \<^verbatim>\<open>IndexError\<close> when no line \<^verbatim>\<open>;\<close> follows.
\<close>

fun multi_line_value :: "string \<Rightarrow> string list \<Rightarrow> (string \<times> string list) option" where
  "multi_line_value acc [] = None"
| "multi_line_value acc (l # ls) =
     (if l \<noteq> '';'' then multi_line_value (acc @ [LF] @ l) ls else Some (acc, ls))"

definition append_to_last :: "string list \<Rightarrow> string \<Rightarrow> error + string list" where
  "append_to_last out s =
     (if out = [] then Inl TypeError else Inr (butlast out @ [last out @ '' '' @ s]))"

function to_single_loop :: "bool \<Rightarrow> string list \<Rightarrow> string list \<Rightarrow> error + string list" where
  "to_single_loop is_looped [] out = Inr out"
| "to_single_loop is_looped (l # ls) out =
     (case l of
        [] \<Rightarrow> Inl IndexError
      | c # cs \<Rightarrow>
          if c = CHR '';'' then
            (case multi_line_value cs ls of
               None \<Rightarrow> Inl IndexError
             | Some (multi_line_str, rest) \<Rightarrow>
                 if is_looped then to_single_loop is_looped rest (out @ [quote multi_line_str])
                 else (case append_to_last out (quote multi_line_str) of
                         Inl e \<Rightarrow> Inl e
                       | Inr out' \<Rightarrow> to_single_loop is_looped rest out'))
          else if \<not> is_looped \<and> c \<noteq> CHR ''_'' then
            (case append_to_last out l of
               Inl e \<Rightarrow> Inl e
             | Inr out' \<Rightarrow> to_single_loop is_looped ls out')
          else to_single_loop is_looped ls (out @ [l]))"
  by pat_completeness auto
termination
proof -
  have shorter: "length rest < Suc (length ls)"
    if "multi_line_value acc ls = Some (m, rest)" for acc ls m rest
    using that by (induction ls arbitrary: acc) (auto split: if_splits intro: less_SucI)
  show ?thesis
    by (relation "measure (\<lambda>(is_looped, ls, out). length ls)") (auto dest: shorter)
qed

definition to_single :: "string list \<Rightarrow> bool \<Rightarrow> error + string list" where
  "to_single lines is_looped = to_single_loop is_looped lines []"

section \<open>Data cells: \<^verbatim>\<open>CIFData\<close>\<close>

text \<open>
  A \<^verbatim>\<open>CIFData\<close> object wraps one numpy array.  The model has the three element types
  that the code distinguishes: text, integers and floating-point numbers.  The type \<open>'f\<close>
  of floating-point numbers is left open; the operations of Python and numpy on it
  that the code relies on are taken as parameters.  Integers are unbounded.

  numpy keeps the strings of an array in cells of one width, filled up with NUL
  characters, so that an element is read from the array without the NUL characters at
  its end, and two elements are equal when they agree up to such characters.
  \<open>StrArray xs\<close> stands for the array \<^verbatim>\<open>np.asarray(xs)\<close>; \<open>rstrip_nul x\<close> is an element as
  the array gives it back.
\<close>

datatype 'f ndarray = StrArray "string list" | IntArray "int list" | FloatArray "'f list"

definition rstrip_nul :: "string \<Rightarrow> string" where
  "rstrip_nul s = rev (dropWhile (\<lambda>c. c = NUL) (rev s))"

record 'f float_ops =
  format_3f :: "'f \<Rightarrow> string"  \<comment> \<open>\<^verbatim>\<open>f"{x:.3f}"\<close>\<close>
  float_str :: "'f \<Rightarrow> string"  \<comment> \<open>the text that \<^verbatim>\<open>astype(str)\<close> gives a float\<close>
  float_eq :: "'f \<Rightarrow> 'f \<Rightarrow> bool"  \<comment> \<open>\<^verbatim>\<open>x == y\<close>\<close>
  float_of_int :: "int \<Rightarrow> 'f"  \<comment> \<open>the conversion in a mixed comparison\<close>

text \<open>\<^verbatim>\<open>len(array)\<close>\<close>

fun array_len :: "'f ndarray \<Rightarrow> nat" where
  "array_len (StrArray xs) = length xs"
| "array_len (IntArray xs) = length xs"
| "array_len (FloatArray xs) = length xs"

text \<open>\<^verbatim>\<open>array.astype(str)\<close>\<close>

fun astype_str :: "'f float_ops \<Rightarrow> 'f ndarray \<Rightarrow> string list" where
  "astype_str F (StrArray xs) = map rstrip_nul xs"
| "astype_str F (IntArray xs) = map str_int xs"
| "astype_str F (FloatArray xs) = map (float_str F) xs"

text \<open>A Python value as \<^verbatim>\<open>as_item\<close> returns it.\<close>

datatype 'f pyval = PyStr string | PyInt int | PyFloat 'f | PyNone

text \<open>\<^verbatim>\<open>array.item()\<close>: the only element; numpy raises \<^verbatim>\<open>ValueError\<close> for another size.\<close>

definition item :: "'a list \<Rightarrow> error + 'a" where
  "item xs =
     (case xs of
        [x] \<Rightarrow> Inr x
      | _ \<Rightarrow> Inl (ValueError ''can only convert an array of size 1 to a Python scalar''))"

fun array_item :: "'f ndarray \<Rightarrow> error + 'f pyval" where
  "array_item (StrArray xs) = bind (item xs) (\<lambda>x. Inr (PyStr (rstrip_nul x)))"
| "array_item (IntArray xs) = bind (item xs) (\<lambda>x. Inr (PyInt x))"
| "array_item (FloatArray xs) = bind (item xs) (\<lambda>x. Inr (PyFloat x))"

text \<open>\<^verbatim>\<open>array == s\<close> for a string \<open>s\<close>, element by element: \<open>s\<close> is put into a cell as
  well.  No number equals a string.\<close>

fun equals_str :: "'f ndarray \<Rightarrow> string \<Rightarrow> bool list" where
  "equals_str (StrArray xs) s = map (\<lambda>x. rstrip_nul x = rstrip_nul s) xs"
| "equals_str (IntArray xs) s = map (\<lambda>x. False) xs"
| "equals_str (FloatArray xs) s = map (\<lambda>x. False) xs"

text \<open>\<^verbatim>\<open>array[selection] = v\<close> for a Boolean selection of the array's length.\<close>

definition assign_where :: "'a list \<Rightarrow> bool list \<Rightarrow> 'a \<Rightarrow> 'a list" where
  "assign_where array selection v = map2 (\<lambda>x b. if b then v else x) array selection"

text \<open>
  \<^verbatim>\<open>
  def _arrayfy(data):
      if not isinstance(data, (Sequence, np.ndarray)) or isinstance(data, str):
          data = [data]
      elif len(data) == 0:
          raise ValueError("Array must contain at least one element")
      return np.asarray(data)
  \<close>
  with the call \<^verbatim>\<open>CIFData(data, str)\<close> around it, for the two kinds of argument that the
  parser passes: one string, and a list of strings.
\<close>

datatype array_like = OneStr string | StrList "string list"

definition CIFData_of_text :: "array_like \<Rightarrow> error + 'f ndarray" where
  "CIFData_of_text d =
     (case d of
        OneStr s \<Rightarrow> Inr (StrArray [rstrip_nul s])
      | StrList xs \<Rightarrow>
          if length xs = 0 then Inl (ValueError ''Array must contain at least one element'')
          else Inr (StrArray (map rstrip_nul xs)))"

text \<open>
  \<^verbatim>\<open>
  def __eq__(self, other):
      if not isinstance(other, type(self)):
          return False
      return np.array_equal(self._array, other._array)
  \<close>
\<close>

fun CIFData_eq :: "'f float_ops \<Rightarrow> 'f ndarray \<Rightarrow> 'f ndarray \<Rightarrow> bool" where
  "CIFData_eq F (StrArray xs) (StrArray ys) = (map rstrip_nul xs = map rstrip_nul ys)"
| "CIFData_eq F (IntArray xs) (IntArray ys) = (xs = ys)"
| "CIFData_eq F (FloatArray xs) (FloatArray ys) = list_all2 (float_eq F) xs ys"
| "CIFData_eq F (IntArray xs) (FloatArray ys) =
     list_all2 (\<lambda>x y. float_eq F (float_of_int F x) y) xs ys"
| "CIFData_eq F (FloatArray xs) (IntArray ys) =
     list_all2 (\<lambda>x y. float_eq F x (float_of_int F y)) xs ys"
| "CIFData_eq F _ _ = False"

section \<open>Masked columns: \<^verbatim>\<open>CIFColumn\<close>\<close>

text \<open>Modelled from the spec: the enumeration \<^verbatim>\<open>MaskValue\<close> of \<^verbatim>\<open>component.py\<close>, which is
  not among the source files: PRESENT(0), INAPPLICABLE(1), MISSING(2).  A mask is an
  array of such codes (\<^verbatim>\<open>uint8\<close>).\<close>

definition PRESENT :: nat where "PRESENT = 0"
definition INAPPLICABLE :: nat where "INAPPLICABLE = 1"
definition MISSING :: nat where "MISSING = 2"

lemmas MaskValue_defs = PRESENT_def INAPPLICABLE_def MISSING_def

record 'f CIFColumn =
  col_data :: "'f ndarray"
  col_mask :: "nat list option"

text \<open>
  \<^verbatim>\<open>
  def __init__(self, data, mask=None):
      if not isinstance(data, CIFData):
          data = CIFData(data, str)
      if mask is None:
          mask = np.full(len(data), MaskValue.PRESENT, dtype=np.uint8)
          mask[data.array == "."] = MaskValue.INAPPLICABLE
          mask[data.array == "?"] = MaskValue.MISSING
          if np.all(mask == MaskValue.PRESENT):
              mask = None
          else:
              mask = CIFData(mask)
      else:
          if not isinstance(mask, CIFData):
              mask = CIFData(mask, np.uint8)
          if len(mask) != len(data):
              raise IndexError(...)
      self._data = data
      self._mask = mask
  \<close>
  \<open>CIFColumn_init\<close> is the constructor on a \<^verbatim>\<open>CIFData\<close> object and, for the mask, nothing
  or a list of numbers that are not negative: \<^verbatim>\<open>astype(np.uint8)\<close> keeps of each number the
  remainder modulo 256.  \<open>CIFColumn_of_text\<close> is the constructor on a string or a list of
  strings.
\<close>

definition inferred_mask :: "'f ndarray \<Rightarrow> nat list" where
  "inferred_mask d =
     (let m = replicate (array_len d) PRESENT;
          m = assign_where m (equals_str d ''.'') INAPPLICABLE;
          m = assign_where m (equals_str d ''?'') MISSING
      in m)"

definition CIFColumn_init :: "'f ndarray \<Rightarrow> nat list option \<Rightarrow> error + 'f CIFColumn" where
  "CIFColumn_init d m =
     (case m of
        None \<Rightarrow>
          (let m = inferred_mask d
           in if list_all (\<lambda>v. v = PRESENT) m then Inr \<lparr>col_data = d, col_mask = None\<rparr>
              else Inr \<lparr>col_data = d, col_mask = Some m\<rparr>)
      | Some m \<Rightarrow>
          if length m = 0 then Inl (ValueError ''Array must contain at least one element'')
          else
            (let m = map (\<lambda>v. v mod 256) m
             in if length m \<noteq> array_len d then Inl IndexError
                else Inr \<lparr>col_data = d, col_mask = Some m\<rparr>))"

definition CIFColumn_of_text :: "array_like \<Rightarrow> error + 'f CIFColumn" where
  "CIFColumn_of_text d = bind (CIFData_of_text d) (\<lambda>a. CIFColumn_init a None)"

text \<open>\<^verbatim>\<open>len(column)\<close> is \<^verbatim>\<open>len(self._data)\<close>.\<close>

definition column_len :: "'f CIFColumn \<Rightarrow> nat" where
  "column_len col = array_len (col_data col)"

text \<open>
  \<^verbatim>\<open>
  def as_item(self):
      if self._mask is None:
          return self._data.array.item()
      mask = self._mask.array.item()
      if self._mask is None or mask == MaskValue.PRESENT:
          item = self._data.array.item()
          # Limit float precision to 3 decimals
          if isinstance(item, float):
              return f"{item:.3f}"
          else:
              return str(item)
      elif mask == MaskValue.INAPPLICABLE:
          return "."
      elif mask == MaskValue.MISSING:
          return "?"
  \<close>
  A function that ends without \<^verbatim>\<open>return\<close> gives \<^verbatim>\<open>None\<close>.
\<close>

definition py_str :: "'f float_ops \<Rightarrow> 'f pyval \<Rightarrow> string" where
  "py_str F v =
     (case v of PyStr s \<Rightarrow> s | PyInt i \<Rightarrow> str_int i | PyFloat x \<Rightarrow> float_str F x
      | PyNone \<Rightarrow> ''None'')"

definition as_item :: "'f float_ops \<Rightarrow> 'f CIFColumn \<Rightarrow> error + 'f pyval" where
  "as_item F col =
     (case col_mask col of
        None \<Rightarrow> array_item (col_data col)
      | Some m \<Rightarrow>
          bind (item m) (\<lambda>code.
            if code = PRESENT then
              bind (array_item (col_data col)) (\<lambda>it.
                case it of
                  PyFloat x \<Rightarrow> Inr (PyStr (format_3f F x))
                | _ \<Rightarrow> Inr (PyStr (py_str F it)))
            else if code = INAPPLICABLE then Inr (PyStr ''.'')
            else if code = MISSING then Inr (PyStr ''?'')
            else Inr PyNone))"

text \<open>
  \<^verbatim>\<open>as_array(dtype=str, masked_value=None)\<close>, that is with the default arguments, as
  serialization calls it:
  \<^verbatim>\<open>
      if self._mask is None:
          return self._data.array.astype(dtype, copy=False)
      elif np.issubdtype(dtype, np.str_):
          if np.issubdtype(self._data.array.dtype, np.floating):
              array = np.array(
                  [f"{e:.3f}" for e in self._data.array], type=dtype
              )
          else:
              array = self._data.array.astype(dtype, copy=True)
          if masked_value is None:
              array[self._mask.array == MaskValue.INAPPLICABLE] = "."
              array[self._mask.array == MaskValue.MISSING] = "?"
          else:
              ...
          return array
  \<close>
  \<^verbatim>\<open>np.array\<close> has no keyword \<^verbatim>\<open>type\<close>: the call raises \<^verbatim>\<open>TypeError\<close>.  A Boolean selection
  of another length than the array raises \<^verbatim>\<open>IndexError\<close>.  A cell of the array has room
  for one character at least, so \<^verbatim>\<open>.\<close> and \<^verbatim>\<open>?\<close> are stored whole.  Calls with another
  \<^verbatim>\<open>dtype\<close> or with a \<^verbatim>\<open>masked_value\<close> are not modelled.
\<close>

definition as_array :: "'f float_ops \<Rightarrow> 'f CIFColumn \<Rightarrow> error + string list" where
  "as_array F col =
     (case col_mask col of
        None \<Rightarrow> Inr (astype_str F (col_data col))
      | Some m \<Rightarrow>
          bind (case col_data col of
                  FloatArray xs \<Rightarrow> Inl TypeError
                | d \<Rightarrow> Inr (astype_str F d)) (\<lambda>array.
            if length m \<noteq> length array then Inl IndexError
            else
              (let array = assign_where array (map (\<lambda>v. v = INAPPLICABLE) m) ''.'';
                   array = assign_where array (map (\<lambda>v. v = MISSING) m) ''?''
               in Inr array)))"

text \<open>
  \<^verbatim>\<open>
  def __eq__(self, other):
      if not isinstance(other, type(self)):
          return False
      if self._data != other._data:
          return False
      if self._mask != other._mask:
          return False
      return True
  \<close>
\<close>

definition CIFColumn_eq :: "'f float_ops \<Rightarrow> 'f CIFColumn \<Rightarrow> 'f CIFColumn \<Rightarrow> bool" where
  "CIFColumn_eq F a b \<longleftrightarrow> CIFData_eq F (col_data a) (col_data b) \<and> col_mask a = col_mask b"

section \<open>Categories: \<^verbatim>\<open>CIFCategory\<close>\<close>

text \<open>The attributes \<^verbatim>\<open>_name\<close>, \<^verbatim>\<open>_row_count\<close> and \<^verbatim>\<open>_columns\<close>.  A method that assigns to
  an attribute returns the object after the call next to its result.\<close>

record 'f CIFCategory =
  cat_name :: "string option"
  cat_row_count :: "nat option"
  cat_columns :: "(string, 'f CIFColumn) dict"

text \<open>
  \<^verbatim>\<open>
  def __init__(self, columns=None, name=None):
      self._name = name
      if columns is None:
          columns = {}
      else:
          columns = {
              key: CIFColumn(col) if not isinstance(col, CIFColumn) else col
              for key, col in columns.items()
          }
      self._row_count = None
      self._columns = columns
  \<close>
\<close>

datatype 'f column_like = Column "'f CIFColumn" | Text array_like

definition coerce_column :: "'f column_like \<Rightarrow> error + 'f CIFColumn" where
  "coerce_column col = (case col of Column c \<Rightarrow> Inr c | Text d \<Rightarrow> CIFColumn_of_text d)"

definition CIFCategory_init ::
    "(string, 'f column_like) dict \<Rightarrow> string option \<Rightarrow> error + 'f CIFCategory" where
  "CIFCategory_init columns name =
     bind (mapM (\<lambda>(key, col). bind (coerce_column col) (\<lambda>c. Inr (key, c))) columns) (\<lambda>cols.
       Inr \<lparr>cat_name = name, cat_row_count = None, cat_columns = cols\<rparr>)"

text \<open>
  \<^verbatim>\<open>
  @property
  def row_count(self):
      if self._row_count is None:
          self._row_count = len(next(iter(self.values())))
      return self._row_count
  \<close>
  \<^verbatim>\<open>next\<close> on the iterator of no columns raises \<^verbatim>\<open>StopIteration\<close>.
\<close>

definition row_count :: "'f CIFCategory \<Rightarrow> (error + nat) \<times> 'f CIFCategory" where
  "row_count c =
     (case cat_row_count c of
        Some n \<Rightarrow> (Inr n, c)
      | None \<Rightarrow>
          (case cat_columns c of
             [] \<Rightarrow> (Inl StopIteration, c)
           | (key, col) # _ \<Rightarrow>
               (Inr (column_len col), c\<lparr>cat_row_count := Some (column_len col)\<rparr>)))"

text \<open>
  \<^verbatim>\<open>
  def __delitem__(self, key):
      if len(self._columns) == 1:
          raise ValueError("At least one column must remain")
      del self._columns[key]
  \<close>
  \<^verbatim>\<open>del\<close> on a key that the dictionary does not have raises \<^verbatim>\<open>KeyError\<close>.
\<close>

definition CIFCategory_delitem ::
    "'f CIFCategory \<Rightarrow> string \<Rightarrow> (error + unit) \<times> 'f CIFCategory" where
  "CIFCategory_delitem c key =
     (if length (cat_columns c) = 1 then (Inl (ValueError ''At least one column must remain''), c)
      else if key \<notin> set (map fst (cat_columns c)) then (Inl KeyError, c)
      else (Inr (), c\<lparr>cat_columns := dict_del key (cat_columns c)\<rparr>))"

text \<open>
  \<^verbatim>\<open>
  def __eq__(self, other):
      if not isinstance(other, type(self)):
          return False
      if set(self.keys()) != set(other.keys()):
          return False
      for col_name in self.keys():
          if self[col_name] != other[col_name]:
              return False
      return True
  \<close>
\<close>

definition CIFCategory_eq :: "'f float_ops \<Rightarrow> 'f CIFCategory \<Rightarrow> 'f CIFCategory \<Rightarrow> bool" where
  "CIFCategory_eq F a b \<longleftrightarrow>
     set (map fst (cat_columns a)) = set (map fst (cat_columns b)) \<and>
     list_all (\<lambda>col_name.
        case (map_of (cat_columns a) col_name, map_of (cat_columns b) col_name) of
          (Some x, Some y) \<Rightarrow> CIFColumn_eq F x y
        | _ \<Rightarrow> False) (map fst (cat_columns a))"

subsection \<open>Serialization\<close>

text \<open>
  \<^verbatim>\<open>
  def _serialize_single(self):
      keys = ["_" + self._name + "." + name for name in self.keys()]
      max_len = max(len(key) for key in keys)
      # "+3" Because of three whitespace chars after longest key
      req_len = max_len + 3
      return [
          key.ljust(req_len) + _multiline(_quote(column.as_item()))
          for key, column in zip(keys, self.values())
      ]
  \<close>
  \<^verbatim>\<open>_quote\<close> takes \<^verbatim>\<open>len(value)\<close>, which raises \<^verbatim>\<open>TypeError\<close> when \<^verbatim>\<open>as_item\<close> has returned
  a number or \<^verbatim>\<open>None\<close>.  \<^verbatim>\<open>"_" + None\<close> raises \<^verbatim>\<open>TypeError\<close>, \<^verbatim>\<open>max\<close> of nothing raises
  \<^verbatim>\<open>ValueError\<close>.
\<close>

definition quote_value :: "'f pyval \<Rightarrow> error + string" where
  "quote_value v = (case v of PyStr s \<Rightarrow> Inr (quote s) | _ \<Rightarrow> Inl TypeError)"

definition key_prefix :: "'f CIFCategory \<Rightarrow> error + string" where
  "key_prefix c =
     (if cat_columns c = [] then Inr []
      else case cat_name c of None \<Rightarrow> Inl TypeError | Some n \<Rightarrow> Inr (''_'' @ n @ ''.''))"

definition serialize_single :: "'f float_ops \<Rightarrow> 'f CIFCategory \<Rightarrow> error + string list" where
  "serialize_single F c =
     bind (key_prefix c) (\<lambda>prefix.
       let keys = map (\<lambda>name. prefix @ name) (map fst (cat_columns c))
       in if keys = [] then Inl (ValueError ''max() arg is an empty sequence'')
          else
            (let max_len = fold max (map length keys) 0;
                 req_len = max_len + 3
             in mapM (\<lambda>(key, column).
                    bind (as_item F column) (\<lambda>v.
                      bind (quote_value v) (\<lambda>q. Inr (ljust key req_len @ multiline q))))
                  (zip keys (map snd (cat_columns c)))))"

text \<open>
  \<^verbatim>\<open>
  def _serialize_looped(self):
      key_lines = [
          "_" + self._name + "." + key + " "
          for key in self.keys()
      ]
      column_arrays = []
      for column in self.values():
          array = column.as_array(str)
          array = np.array(
              [_multiline(_quote(element)) for element in array]
          )
          column_arrays.append(array)
      column_n_chars = [
          array.dtype.itemsize // UNICODE_CHAR_SIZE + 1
          for array in column_arrays
      ]
      value_lines = [""] * self._row_count
      for i in range(self._row_count):
          for j, array in enumerate(column_arrays):
              value_lines[i] += array[i].ljust(column_n_chars[j])
          # Remove trailing justification of last column
          value_lines[i].rstrip()
      return ["loop_"] + key_lines + value_lines
  \<close>
  The item size of a string array is four bytes for each character of its longest
  element, and at least four bytes.  \<open>quoted_array\<close> gives the strings that \<^verbatim>\<open>np.array\<close> is
  called on, and \<^verbatim>\<open>array[i]\<close> reads an element from its cell.  The result of \<^verbatim>\<open>rstrip()\<close>
  is thrown away, so the lines keep their trailing blanks.  \<^verbatim>\<open>array[i]\<close> raises
  \<^verbatim>\<open>IndexError\<close> beyond the array, \<^verbatim>\<open>[""] * None\<close> raises \<^verbatim>\<open>TypeError\<close>.
\<close>

definition n_chars :: "string list \<Rightarrow> nat" where
  "n_chars array = fold max (map length array) 1 + 1"

definition quoted_array :: "'f float_ops \<Rightarrow> 'f CIFColumn \<Rightarrow> error + string list" where
  "quoted_array F column =
     bind (as_array F column) (\<lambda>array.
       Inr (map (\<lambda>element. multiline (quote element)) array))"

fun value_line :: "(string list \<times> nat) list \<Rightarrow> nat \<Rightarrow> error + string" where
  "value_line [] i = Inr []"
| "value_line ((array, n) # rest) i =
     (if i < length array
      then bind (value_line rest i) (\<lambda>l. Inr (ljust (rstrip_nul (array ! i)) n @ l))
      else Inl IndexError)"

definition serialize_looped :: "'f float_ops \<Rightarrow> 'f CIFCategory \<Rightarrow> error + string list" where
  "serialize_looped F c =
     bind (key_prefix c) (\<lambda>prefix.
       let key_lines = map (\<lambda>key. prefix @ key @ '' '') (map fst (cat_columns c))
       in bind (mapM (quoted_array F) (map snd (cat_columns c))) (\<lambda>column_arrays.
            let column_n_chars = map n_chars column_arrays
            in case cat_row_count c of
                 None \<Rightarrow> Inl TypeError
               | Some n \<Rightarrow>
                   bind (mapM (value_line (zip column_arrays column_n_chars)) [0..<n])
                     (\<lambda>value_lines. Inr ([''loop_''] @ key_lines @ value_lines))))"

text \<open>
  \<^verbatim>\<open>
  def serialize(self):
      if self._name is None:
          raise SerializationError("Category name is required")
      if not self._columns:
          raise ValueError("At least one column is required")

      for column_name, column in self.items():
          if self._row_count is None:
              self._row_count = len(column)
          elif len(column) != self._row_count:
              raise SerializationError(
                  f"All columns must have the same length, "
                  f"but '{column_name}' has length {len(column)}, "
                  f"while the first column has row_count {self._row_count}"
              )

      if self._row_count == 0:
          raise ValueError("At least one row is required")
      elif self._row_count == 1:
          lines = self._serialize_single()
      else:
          lines = self._serialize_looped()
      # Enforce terminal line break
      lines.append("")
      return "\n".join(lines)
  \<close>
  \<open>check_lengths\<close> is the loop over the columns: it gives the exception that the loop
  raises, if any, and the value of \<^verbatim>\<open>_row_count\<close> that the loop leaves.
\<close>

definition length_message :: "string \<Rightarrow> nat \<Rightarrow> nat \<Rightarrow> string" where
  "length_message column_name n rc =
     ''All columns must have the same length, but '' @ [SQ] @ column_name @ [SQ] @
     '' has length '' @ str_nat n @ '', while the first column has row_count '' @ str_nat rc"

fun check_lengths ::
    "nat option \<Rightarrow> (string, 'f CIFColumn) dict \<Rightarrow> error option \<times> nat option" where
  "check_lengths rc [] = (None, rc)"
| "check_lengths rc ((column_name, column) # rest) =
     (case rc of
        None \<Rightarrow> check_lengths (Some (column_len column)) rest
      | Some n \<Rightarrow>
          if column_len column \<noteq> n
          then (Some (SerializationError (length_message column_name (column_len column) n)), rc)
          else check_lengths rc rest)"

definition CIFCategory_serialize ::
    "'f float_ops \<Rightarrow> 'f CIFCategory \<Rightarrow> (error + string) \<times> 'f CIFCategory" where
  "CIFCategory_serialize F c =
     (if cat_name c = None then (Inl (SerializationError ''Category name is required''), c)
      else if cat_columns c = [] then (Inl (ValueError ''At least one column is required''), c)
      else
        (case check_lengths (cat_row_count c) (cat_columns c) of
           (Some e, rc) \<Rightarrow> (Inl e, c\<lparr>cat_row_count := rc\<rparr>)
         | (None, rc) \<Rightarrow>
             (let c' = c\<lparr>cat_row_count := rc\<rparr>
              in (bind (if rc = Some 0 then Inl (ValueError ''At least one row is required'')
                        else if rc = Some 1 then serialize_single F c'
                        else serialize_looped F c')
                    (\<lambda>lines. Inr (join [LF] (lines @ [[]]))),
                  c'))))"

subsection \<open>Deserialization\<close>

text \<open>\<^verbatim>\<open>xs[i]\<close> for an index that is not negative.\<close>

definition index :: "'a list \<Rightarrow> nat \<Rightarrow> error + 'a" where
  "index xs i = (if i < length xs then Inr (xs ! i) else Inl IndexError)"

text \<open>
  \<^verbatim>\<open>
  @staticmethod
  def _deserialize_single(lines):
      category_dict = {}
      for line in lines:
          parts = _split_one_line(line)
          column_name = parts[0].split(".")[1]
          column = parts[1]
          category_dict[column_name] = CIFColumn(column)
      return category_dict
  \<close>
\<close>

fun deserialize_single_loop ::
    "string list \<Rightarrow> (string, 'f column_like) dict \<Rightarrow> error + (string, 'f column_like) dict" where
  "deserialize_single_loop [] category_dict = Inr category_dict"
| "deserialize_single_loop (line # rest) category_dict =
     (let parts = split_one_line line
      in bind (index parts 0) (\<lambda>key.
           bind (index (split_on CHR ''.'' key) 1) (\<lambda>column_name.
             bind (index parts 1) (\<lambda>column.
               bind (CIFColumn_of_text (OneStr column)) (\<lambda>col.
                 deserialize_single_loop rest (dict_set column_name (Column col) category_dict))))))"

definition deserialize_single :: "string list \<Rightarrow> error + (string, 'f column_like) dict" where
  "deserialize_single lines = deserialize_single_loop lines []"

text \<open>
  \<^verbatim>\<open>
  @staticmethod
  def _deserialize_looped(lines, expect_whitespace):
      category_dict = {}
      column_names = []
      i = 0
      for key_line in lines:
          if key_line[0] == "_":
              # Key line
              key = key_line.split(".")[1]
              column_names.append(key)
              category_dict[key] = []
              i += 1
          else:
              break

      data_lines = lines[i:]
      # Rows may be split over multiple lines -> do not rely on
      # row-line-alignment at all and simply cycle through columns
      column_names = itertools.cycle(column_names)
      for data_line in data_lines:
          if expect_whitespace:
              values = _split_one_line(data_line)
          else:
              values = data_line.split()
              for k in range(len(values)):
                  # Remove quotes
                  if (values[k][0] == '"' and values[k][-1] == '"') or (
                      values[k][0] == "'" and values[k][-1] == "'"
                  ):
                      values[k] = values[k][1:-1]
          for val in values:
              column_name = next(column_names)
              category_dict[column_name].append(val)

      return category_dict
  \<close>
  \<open>key_lines_loop\<close> is the first loop; it gives the column names, the dictionary and the
  data lines.  The position in the cycle is the count \<open>n\<close> of the values handed out so
  far; \<^verbatim>\<open>next\<close> on the cycle of no names raises \<^verbatim>\<open>StopIteration\<close>.  Every name of the
  cycle is a key of the dictionary, whose keys are distinct.
\<close>

fun key_lines_loop ::
    "string list \<Rightarrow> string list \<Rightarrow> (string, string list) dict \<Rightarrow>
     error + string list \<times> (string, string list) dict \<times> string list" where
  "key_lines_loop [] column_names category_dict = Inr (column_names, category_dict, [])"
| "key_lines_loop (key_line # rest) column_names category_dict =
     (case key_line of
        [] \<Rightarrow> Inl IndexError
      | c # _ \<Rightarrow>
          if c = CHR ''_'' then
            bind (index (split_on CHR ''.'' key_line) 1) (\<lambda>key.
              key_lines_loop rest (column_names @ [key]) (dict_set key [] category_dict))
          else Inr (column_names, category_dict, key_line # rest))"

definition remove_quotes :: "string \<Rightarrow> string" where
  "remove_quotes v =
     (if (hd v = DQ \<and> last v = DQ) \<or> (hd v = SQ \<and> last v = SQ) then slice v 1 (-1) else v)"

definition line_values :: "bool \<Rightarrow> string \<Rightarrow> string list" where
  "line_values expect_whitespace data_line =
     (if expect_whitespace then split_one_line data_line
      else map remove_quotes (split_ws data_line))"

definition dict_append :: "string \<Rightarrow> string \<Rightarrow> (string, string list) dict \<Rightarrow> (string, string list) dict" where
  "dict_append column_name val category_dict =
     map (\<lambda>(k, vals). if k = column_name then (k, vals @ [val]) else (k, vals)) category_dict"

fun append_values ::
    "string list \<Rightarrow> string list \<Rightarrow> nat \<times> (string, string list) dict \<Rightarrow>
     error + nat \<times> (string, string list) dict" where
  "append_values column_names [] (n, category_dict) = Inr (n, category_dict)"
| "append_values column_names (val # vals) (n, category_dict) =
     (if column_names = [] then Inl StopIteration
      else
        (let column_name = column_names ! (n mod length column_names)
         in append_values column_names vals (Suc n, dict_append column_name val category_dict)))"

fun data_lines_loop ::
    "bool \<Rightarrow> string list \<Rightarrow> string list \<Rightarrow> nat \<times> (string, string list) dict \<Rightarrow>
     error + nat \<times> (string, string list) dict" where
  "data_lines_loop expect_whitespace column_names [] st = Inr st"
| "data_lines_loop expect_whitespace column_names (data_line # rest) st =
     bind (append_values column_names (line_values expect_whitespace data_line) st)
       (data_lines_loop expect_whitespace column_names rest)"

definition deserialize_looped :: "string list \<Rightarrow> bool \<Rightarrow> error + (string, string list) dict" where
  "deserialize_looped lines expect_whitespace =
     bind (key_lines_loop lines [] []) (\<lambda>(column_names, category_dict, data_lines).
       bind (data_lines_loop expect_whitespace column_names data_lines (0, category_dict))
         (\<lambda>(n, category_dict). Inr category_dict))"

text \<open>
  \<^verbatim>\<open>
  @staticmethod
  def deserialize(text, expect_whitespace=True):
      lines = [
          line.strip() for line in text.splitlines() if not _is_empty(line)
      ]

      if _is_loop_start(lines[0]):
          is_looped = True
          lines.pop(0)
      else:
          is_looped = False

      category_name = _parse_category_name(lines[0])
      if category_name is None:
          raise DeserializationError(
              "Failed to parse category name"
          )

      lines = _to_single(lines, is_looped)
      if is_looped:
          category_dict = CIFCategory._deserialize_looped(
              lines, expect_whitespace
          )
      else:
          category_dict = CIFCategory._deserialize_single(lines)
      return CIFCategory(category_dict, category_name)
  \<close>
\<close>

definition content_lines :: "string \<Rightarrow> string list" where
  "content_lines text = map strip (filter (\<lambda>line. \<not> is_empty line) (splitlines text))"

definition CIFCategory_deserialize :: "string \<Rightarrow> bool \<Rightarrow> error + 'f CIFCategory" where
  "CIFCategory_deserialize text expect_whitespace =
     (let lines = content_lines text
      in bind (index lines 0) (\<lambda>first.
           let is_looped = is_loop_start first;
               lines = (if is_looped then tl lines else lines)
           in bind (index lines 0) (\<lambda>first.
                bind (parse_category_name first) (\<lambda>category_name.
                  if category_name = None
                  then Inl (DeserializationError ''Failed to parse category name'')
                  else
                    bind (to_single lines is_looped) (\<lambda>lines.
                      bind (if is_looped
                            then bind (deserialize_looped lines expect_whitespace)
                                   (\<lambda>d. Inr (map (\<lambda>(k, vals). (k, Text (StrList vals))) d))
                            else deserialize_single lines) (\<lambda>category_dict.
                        CIFCategory_init category_dict category_name))))))"

section \<open>Blocks: \<^verbatim>\<open>CIFBlock\<close>\<close>

text \<open>The dictionary \<^verbatim>\<open>_categories\<close> holds, for each key, either the text of a category
  that has not been read yet or a \<^verbatim>\<open>CIFCategory\<close>.  A key that the parser has read from
  a text can be \<^verbatim>\<open>None\<close>, hence keys are optional strings.  Two entries of a dictionary
  are never the same object in the model: sharing of one category between two keys is
  not modelled.\<close>

datatype 'f category_slot = CategoryText string | Category "'f CIFCategory"

type_synonym 'f CIFBlock = "(string option, 'f category_slot) dict"

text \<open>\<^verbatim>\<open>f"{key}"\<close>\<close>

definition key_str :: "string option \<Rightarrow> string" where
  "key_str key = (case key of None \<Rightarrow> ''None'' | Some s \<Rightarrow> s)"

text \<open>
  \<^verbatim>\<open>
  def _create_element_dict(lines, element_names, element_starts):
      # Add exclusive stop to indices for easier slicing
      element_starts.append(len(lines))
      # Lazy deserialization
      # -> keep as text for now and deserialize later if needed
      return {
          element_name: "\n".join(lines[element_starts[i] : element_starts[i+1]])
          for i, element_name in enumerate(element_names)
      }
  \<close>
  The arguments are the pairs of a start and a name, in the order of the lines.
\<close>

fun create_element_dict ::
    "string list \<Rightarrow> (nat \<times> 'k) list \<Rightarrow> ('k, string) dict \<Rightarrow> ('k, string) dict" where
  "create_element_dict lines [] d = d"
| "create_element_dict lines [(start, element_name)] d =
     dict_set element_name (join [LF] (drop start lines)) d"
| "create_element_dict lines ((start, element_name) # (stop, next_name) # rest) d =
     create_element_dict lines ((stop, next_name) # rest)
       (dict_set element_name (join [LF] (take (stop - start) (drop start lines))) d)"

text \<open>
  \<^verbatim>\<open>
  @staticmethod
  def deserialize(text):
      lines = text.splitlines()
      current_category_name = None
      category_starts = []
      category_names = []
      for i, line in enumerate(lines):
          if not _is_empty(line):
              is_loop_in_line = _is_loop_start(line)
              category_name_in_line = _parse_category_name(line)
              if is_loop_in_line or (
                  category_name_in_line != current_category_name
                  and category_name_in_line is not None
              ):
                  # Track the new category
                  if is_loop_in_line:
                      # In case of lines with "loop_" the category is
                      # in the next line
                      category_name_in_line = _parse_category_name(
                          lines[i + 1]
                      )
                  current_category_name = category_name_in_line
                  category_starts.append(i)
                  category_names.append(current_category_name)
      return CIFBlock(_create_element_dict(
          lines, category_names, category_starts
      ))
  \<close>
  \<open>category_loop\<close> runs over the lines from index \<open>i\<close> on.
\<close>

fun category_loop ::
    "nat \<Rightarrow> string list \<Rightarrow> string option \<Rightarrow> error + (nat \<times> string option) list" where
  "category_loop i [] current_category_name = Inr []"
| "category_loop i (line # rest) current_category_name =
     (if \<not> is_empty line then
        (let is_loop_in_line = is_loop_start line
         in bind (parse_category_name line) (\<lambda>category_name_in_line.
              if is_loop_in_line \<or>
                 (category_name_in_line \<noteq> current_category_name \<and> category_name_in_line \<noteq> None)
              then
                bind (if is_loop_in_line
                      then bind (index rest 0) parse_category_name
                      else Inr category_name_in_line) (\<lambda>category_name_in_line.
                  bind (category_loop (Suc i) rest category_name_in_line) (\<lambda>starts.
                    Inr ((i, category_name_in_line) # starts)))
              else category_loop (Suc i) rest current_category_name))
      else category_loop (Suc i) rest current_category_name)"

definition CIFBlock_deserialize :: "string \<Rightarrow> error + 'f CIFBlock" where
  "CIFBlock_deserialize text =
     (let lines = splitlines text
      in bind (category_loop 0 lines None) (\<lambda>starts.
           Inr (map (\<lambda>(k, t). (k, CategoryText t)) (create_element_dict lines starts []))))"

text \<open>
  \<^verbatim>\<open>
  def serialize(self):
      text_blocks = []
      for category_name, category in self._categories.items():
          if isinstance(category, str):
              # Category is already stored as lines
              text_blocks.append(category)
          else:
              try:
                  category.name = category_name
                  text_blocks.append(category.serialize())
              except:
                  raise SerializationError(
                      f"Failed to serialize category '{category_name}'"
                  )
              # A comment line is set after each category
              text_blocks.append("#\n")
      return "".join(text_blocks)
  \<close>
  The loop gives the text blocks, or the exception, and the dictionary as the
  assignments to \<^verbatim>\<open>name\<close> and \<^verbatim>\<open>_row_count\<close> leave it.
\<close>

fun serialize_categories ::
    "'f float_ops \<Rightarrow> 'f CIFBlock \<Rightarrow> (error + string list) \<times> 'f CIFBlock" where
  "serialize_categories F [] = (Inr [], [])"
| "serialize_categories F ((category_name, CategoryText t) # rest) =
     (case serialize_categories F rest of
        (r, rest') \<Rightarrow>
          (bind r (\<lambda>text_blocks. Inr (t # text_blocks)), (category_name, CategoryText t) # rest'))"
| "serialize_categories F ((category_name, Category c) # rest) =
     (case CIFCategory_serialize F (c\<lparr>cat_name := category_name\<rparr>) of
        (Inl e, c') \<Rightarrow>
          (Inl (SerializationError
                  (''Failed to serialize category '' @ [SQ] @ key_str category_name @ [SQ])),
           (category_name, Category c') # rest)
      | (Inr t, c') \<Rightarrow>
          (case serialize_categories F rest of
             (r, rest') \<Rightarrow>
               (bind r (\<lambda>text_blocks. Inr (t # (''#'' @ [LF]) # text_blocks)),
                (category_name, Category c') # rest')))"

definition CIFBlock_serialize :: "'f float_ops \<Rightarrow> 'f CIFBlock \<Rightarrow> (error + string) \<times> 'f CIFBlock" where
  "CIFBlock_serialize F b =
     (case serialize_categories F b of
        (r, b') \<Rightarrow> (bind r (\<lambda>text_blocks. Inr (concat text_blocks)), b'))"

text \<open>
  \<^verbatim>\<open>
  def __getitem__(self, key):
      category = self._categories[key]
      if isinstance(category, str):
          # Element is stored in serialized form
          # -> must be deserialized first
          try:
              # Special optimization for "atom_site":
              # Even if the values are quote protected,
              # no whitespace is expected in escaped values
              # Therefore slow regex-based _split_one_line() call is not necessary
              if key == "atom_site":
                  expect_whitespace = False
              else:
                  expect_whitespace = True
              category = CIFCategory.deserialize(category, expect_whitespace)
          except:
              raise DeserializationError(
                  f"Failed to deserialize category '{key}'"
              )
          # Update with deserialized object
          self._categories[key] = category
      return category
  \<close>
\<close>

definition CIFBlock_getitem ::
    "'f CIFBlock \<Rightarrow> string option \<Rightarrow> (error + 'f CIFCategory) \<times> 'f CIFBlock" where
  "CIFBlock_getitem b key =
     (case map_of b key of
        None \<Rightarrow> (Inl KeyError, b)
      | Some (Category c) \<Rightarrow> (Inr c, b)
      | Some (CategoryText t) \<Rightarrow>
          (let expect_whitespace = (key \<noteq> Some ''atom_site'')
           in case CIFCategory_deserialize t expect_whitespace of
                Inl e \<Rightarrow>
                  (Inl (DeserializationError
                          (''Failed to deserialize category '' @ [SQ] @ key_str key @ [SQ])),
                   b)
              | Inr category \<Rightarrow> (Inr category, dict_set key (Category category) b)))"

text \<open>
  \<^verbatim>\<open>
  def __setitem__(self, key, category):
      if not isinstance(category, CIFCategory):
          raise TypeError(...)
      category.name = key
      self._categories[key] = category
  \<close>
  for a \<^verbatim>\<open>category\<close> that is a \<^verbatim>\<open>CIFCategory\<close>.
\<close>

definition CIFBlock_setitem :: "'f CIFBlock \<Rightarrow> string option \<Rightarrow> 'f CIFCategory \<Rightarrow> 'f CIFBlock" where
  "CIFBlock_setitem b key category = dict_set key (Category (category\<lparr>cat_name := key\<rparr>)) b"

text \<open>
  \<^verbatim>\<open>
  def __eq__(self, other):
      if not isinstance(other, type(self)):
          return False
      if set(self.keys()) != set(other.keys()):
          return False
      for cat_name in self.keys():
          if self[cat_name] != other[cat_name]:
              return False
      return True
  \<close>
  \<^verbatim>\<open>self[cat_name]\<close> reads a slot through \<^verbatim>\<open>__getitem__\<close>, which may raise.  What it stores
  is the category that a later call returns for the same key, and it changes no other
  key, so the comparison is given as a function of the two blocks before the call.
\<close>

fun categories_eq ::
    "'f float_ops \<Rightarrow> 'f CIFBlock \<Rightarrow> 'f CIFBlock \<Rightarrow> string option list \<Rightarrow> error + bool" where
  "categories_eq F a b [] = Inr True"
| "categories_eq F a b (key # keys) =
     bind (fst (CIFBlock_getitem a key)) (\<lambda>x.
       bind (fst (CIFBlock_getitem b key)) (\<lambda>y.
         if \<not> CIFCategory_eq F x y then Inr False else categories_eq F a b keys))"

definition CIFBlock_eq :: "'f float_ops \<Rightarrow> 'f CIFBlock \<Rightarrow> 'f CIFBlock \<Rightarrow> error + bool" where
  "CIFBlock_eq F a b =
     (if set (map fst a) \<noteq> set (map fst b) then Inr False
      else categories_eq F a b (map fst a))"

section \<open>Files: \<^verbatim>\<open>CIFFile\<close>\<close>

text \<open>The dictionary \<^verbatim>\<open>_blocks\<close> holds, for each block name, either the text of a block
  that has not been read yet or a \<^verbatim>\<open>CIFBlock\<close>.\<close>

datatype 'f block_slot = BlockText string | Block "'f CIFBlock"

type_synonym 'f CIFFile = "(string, 'f block_slot) dict"

text \<open>
  \<^verbatim>\<open>
  @staticmethod
  def deserialize(text):
      lines = text.splitlines()
      block_starts = []
      block_names = []
      for i, line in enumerate(lines):
          if not _is_empty(line):
              data_block_name = _parse_data_block_name(line)
              if data_block_name is not None:
                  block_starts.append(i)
                  block_names.append(data_block_name)
      return CIFFile(_create_element_dict(lines, block_names, block_starts))
  \<close>
\<close>

fun block_loop :: "nat \<Rightarrow> string list \<Rightarrow> (nat \<times> string) list" where
  "block_loop i [] = []"
| "block_loop i (line # rest) =
     (if \<not> is_empty line then
        (case parse_data_block_name line of
           Some data_block_name \<Rightarrow> (i, data_block_name) # block_loop (Suc i) rest
         | None \<Rightarrow> block_loop (Suc i) rest)
      else block_loop (Suc i) rest)"

definition CIFFile_deserialize :: "string \<Rightarrow> 'f CIFFile" where
  "CIFFile_deserialize text =
     (let lines = splitlines text
      in map (\<lambda>(k, t). (k, BlockText t)) (create_element_dict lines (block_loop 0 lines) []))"

text \<open>
  \<^verbatim>\<open>
  def serialize(self):
      text_blocks = []
      for block_name, block in self._blocks.items():
          text_blocks.append("data_" + block_name + "\n")
          # A comment line is set after the block indicator
          text_blocks.append("#\n")
          if isinstance(block, str):
              # Block is already stored as text
              text_blocks.append(block)
          else:
              try:
                  text_blocks.append(block.serialize())
              except:
                  raise SerializationError(
                      f"Failed to serialize block '{block_name}'"
                  )
      # Enforce terminal line break
      text_blocks.append("")
      return "".join(text_blocks)
  \<close>
\<close>

fun serialize_blocks ::
    "'f float_ops \<Rightarrow> 'f CIFFile \<Rightarrow> (error + string list) \<times> 'f CIFFile" where
  "serialize_blocks F [] = (Inr [], [])"
| "serialize_blocks F ((block_name, BlockText t) # rest) =
     (case serialize_blocks F rest of
        (r, rest') \<Rightarrow>
          (bind r (\<lambda>text_blocks.
             Inr ((''data_'' @ block_name @ [LF]) # (''#'' @ [LF]) # t # text_blocks)),
           (block_name, BlockText t) # rest'))"
| "serialize_blocks F ((block_name, Block b) # rest) =
     (case CIFBlock_serialize F b of
        (Inl e, b') \<Rightarrow>
          (Inl (SerializationError (''Failed to serialize block '' @ [SQ] @ block_name @ [SQ])),
           (block_name, Block b') # rest)
      | (Inr t, b') \<Rightarrow>
          (case serialize_blocks F rest of
             (r, rest') \<Rightarrow>
               (bind r (\<lambda>text_blocks.
                  Inr ((''data_'' @ block_name @ [LF]) # (''#'' @ [LF]) # t # text_blocks)),
                (block_name, Block b') # rest')))"

definition CIFFile_serialize :: "'f float_ops \<Rightarrow> 'f CIFFile \<Rightarrow> (error + string) \<times> 'f CIFFile" where
  "CIFFile_serialize F f =
     (case serialize_blocks F f of
        (r, f') \<Rightarrow> (bind r (\<lambda>text_blocks. Inr (concat (text_blocks @ [[]]))), f'))"

text \<open>
  \<^verbatim>\<open>
  def __getitem__(self, key):
      block = self._blocks[key]
      if isinstance(block, str):
          # Element is stored in serialized form
          # -> must be deserialized first
          try:
              block = CIFBlock.deserialize(block)
          except:
              raise DeserializationError(
                  f"Failed to deserialize block '{key}'"
              )
          # Update with deserialized object
          self._blocks[key] = block
      return block
  \<close>
\<close>

definition CIFFile_getitem :: "'f CIFFile \<Rightarrow> string \<Rightarrow> (error + 'f CIFBlock) \<times> 'f CIFFile" where
  "CIFFile_getitem f key =
     (case map_of f key of
        None \<Rightarrow> (Inl KeyError, f)
      | Some (Block b) \<Rightarrow> (Inr b, f)
      | Some (BlockText t) \<Rightarrow>
          (case CIFBlock_deserialize t of
             Inl e \<Rightarrow>
               (Inl (DeserializationError (''Failed to deserialize block '' @ [SQ] @ key @ [SQ])),
                f)
           | Inr block \<Rightarrow> (Inr block, dict_set key (Block block) f)))"

text \<open>
  \<^verbatim>\<open>
  def __eq__(self, other):
      if not isinstance(other, type(self)):
          return False
      if set(self.keys()) != set(other.keys()):
          return False
      for block_name in self.keys():
          if self[block_name] != other[block_name]:
              return False
      return True
  \<close>
\<close>

fun blocks_eq ::
    "'f float_ops \<Rightarrow> 'f CIFFile \<Rightarrow> 'f CIFFile \<Rightarrow> string list \<Rightarrow> error + bool" where
  "blocks_eq F a b [] = Inr True"
| "blocks_eq F a b (key # keys) =
     bind (fst (CIFFile_getitem a key)) (\<lambda>x.
       bind (fst (CIFFile_getitem b key)) (\<lambda>y.
         bind (CIFBlock_eq F x y) (\<lambda>eq.
           if \<not> eq then Inr False else blocks_eq F a b keys)))"

definition CIFFile_eq :: "'f float_ops \<Rightarrow> 'f CIFFile \<Rightarrow> 'f CIFFile \<Rightarrow> error + bool" where
  "CIFFile_eq F a b =
     (if set (map fst a) \<noteq> set (map fst b) then Inr False
      else blocks_eq F a b (map fst a))"

section \<open>Definitions for the statements\<close>

text \<open>Operations on floating-point numbers for examples that hold none.\<close>

definition text_only :: "unit float_ops" where
  "text_only =
     \<lparr>format_3f = (\<lambda>x. []), float_str = (\<lambda>x. []), float_eq = (\<lambda>x y. True),
      float_of_int = (\<lambda>i. ())\<rparr>"

text \<open>The quoting rule with the case of the leading underscore as the code has it.\<close>

definition quote_amended :: "string \<Rightarrow> string" where
  "quote_amended v =
     (if v = [] then [SQ, SQ]
      else if wrapped_in SQ v \<or> wrapped_in DQ v then v
      else if hd v = CHR ''_'' then [SQ] @ v @ [SQ]
      else if SQ \<in> set v then [DQ] @ v @ [DQ]
      else if DQ \<in> set v \<or> CHR '' '' \<in> set v \<or> TAB \<in> set v \<or> LF \<in> set v
        then [SQ] @ v @ [SQ]
      else v)"

text \<open>The presence code that the text of one element stands for.\<close>

definition presence_code :: "string \<Rightarrow> nat" where
  "presence_code x = (if x = ''.'' then INAPPLICABLE else if x = ''?'' then MISSING else PRESENT)"

text \<open>The strings that a column is constructed from, and a string that ends in NUL.\<close>

definition elements :: "array_like \<Rightarrow> string list" where
  "elements d = (case d of OneStr s \<Rightarrow> [s] | StrList xs \<Rightarrow> xs)"

definition nul_terminated :: string where
  "nul_terminated = ''a'' @ [NUL]"

text \<open>A column of text without a mask, and a category that has not been serialized yet.\<close>

definition text_column :: "string list \<Rightarrow> unit CIFColumn" where
  "text_column xs = \<lparr>col_data = StrArray xs, col_mask = None\<rparr>"

definition new_category :: "string option \<Rightarrow> (string, unit CIFColumn) dict \<Rightarrow> unit CIFCategory" where
  "new_category n cols = \<lparr>cat_name = n, cat_row_count = None, cat_columns = cols\<rparr>"

text \<open>The column that the constructor makes of a list of strings.\<close>

definition column_of_text :: "string list \<Rightarrow> 'f CIFColumn" where
  "column_of_text xs =
     (let ys = map rstrip_nul xs
      in \<lparr>col_data = StrArray ys,
          col_mask = (if list_all (\<lambda>y. presence_code y = PRESENT) ys then None
                      else Some (map presence_code ys))\<rparr>)"




definition column_name :: "string \<Rightarrow> string" where
  "column_name key_line = split_on CHR ''.'' key_line ! 1"



text \<open>What a parsed category and a parsed block contribute to the text of their
  container, and the two lines that open a block.\<close>

definition category_text :: "'f float_ops \<Rightarrow> string option \<Rightarrow> 'f CIFCategory \<Rightarrow> error + string" where
  "category_text F key c =
     (case fst (CIFCategory_serialize F (c\<lparr>cat_name := key\<rparr>)) of
        Inl e \<Rightarrow> Inl (SerializationError
                  (''Failed to serialize category '' @ [SQ] @ key_str key @ [SQ]))
      | Inr s \<Rightarrow> Inr (s @ ''#'' @ [LF]))"

definition block_text :: "'f float_ops \<Rightarrow> string \<Rightarrow> 'f CIFBlock \<Rightarrow> error + string" where
  "block_text F name b =
     (case fst (CIFBlock_serialize F b) of
        Inl e \<Rightarrow> Inl (SerializationError (''Failed to serialize block '' @ [SQ] @ name @ [SQ]))
      | Inr s \<Rightarrow> Inr s)"

definition block_header :: "string \<Rightarrow> string" where
  "block_header name = ''data_'' @ name @ [LF] @ ''#'' @ [LF]"

text \<open>Two categories with one value each, the block and the file that hold them, the
  texts that serialization gives the block and the file, and the block and the file that
  deserialization makes of these texts.\<close>

definition one_value_category :: "unit CIFCategory" where
  "one_value_category = new_category (Some ''a'') [(''b'', text_column [''1''])]"

definition other_value_category :: "unit CIFCategory" where
  "other_value_category = new_category (Some ''c'') [(''d'', text_column [''2''])]"

definition two_value_block :: "unit CIFBlock" where
  "two_value_block =
     [(Some ''a'', Category one_value_category), (Some ''c'', Category other_value_category)]"

definition two_value_text :: string where
  "two_value_text = ''_a.b   1'' @ [LF] @ ''#'' @ [LF] @ ''_c.d   2'' @ [LF] @ ''#'' @ [LF]"

definition lazy_block :: "unit CIFBlock" where
  "lazy_block =
     [(Some ''a'', CategoryText (''_a.b   1'' @ [LF] @ ''#'')),
      (Some ''c'', CategoryText (''_c.d   2'' @ [LF] @ ''#''))]"

definition two_value_file_text :: string where
  "two_value_file_text = ''data_x'' @ [LF] @ ''#'' @ [LF] @ two_value_text"

definition lazy_file :: "unit CIFFile" where
  "lazy_file =
     [(''x'', BlockText (''data_x'' @ [LF] @ ''#'' @ [LF] @ ''_a.b   1'' @ [LF] @ ''#'' @ [LF] @
        ''_c.d   2'' @ [LF] @ ''#''))]"

subsection \<open>Categories of plain text\<close>

text \<open>A token that the tokenizers return as it stands.\<close>

definition word :: "string \<Rightarrow> bool" where
  "word t \<longleftrightarrow> t \<noteq> [] \<and> (\<forall>c \<in> set t. \<not> isspace c) \<and> hd t \<noteq> SQ \<and> hd t \<noteq> DQ"

text \<open>Tokens, each followed by a number of blanks.\<close>

fun pad_join :: "(string \<times> nat) list \<Rightarrow> string" where
  "pad_join [] = []"
| "pad_join ((t, n) # rest) = t @ replicate n CHR '' '' @ pad_join rest"

text \<open>Every token but the last is followed by a blank.\<close>

definition separated :: "(string \<times> nat) list \<Rightarrow> bool" where
  "separated tps \<longleftrightarrow> (\<forall>(t, n) \<in> set (butlast tps). 1 \<le> n)"

text \<open>Lines, each closed by a line feed.\<close>

definition unlines :: "string list \<Rightarrow> string" where
  "unlines ls = concat (map (\<lambda>l. l @ [LF]) ls)"

text \<open>A value that is written without quotes and that no reader takes for a comment, a
  key, a text field or the start of a loop or of a block; a name of a category or of a
  column that holds no white space and no dot.\<close>

definition plain :: "string \<Rightarrow> bool" where
  "plain v \<longleftrightarrow>
     v \<noteq> [] \<and> (\<forall>c \<in> set v. \<not> isspace c \<and> c \<noteq> SQ \<and> c \<noteq> DQ) \<and>
     hd v \<noteq> CHR ''_'' \<and> hd v \<noteq> CHR ''#'' \<and> hd v \<noteq> CHR '';'' \<and>
     \<not> startswith v ''loop_'' \<and> \<not> startswith v ''data_''"

definition name_ok :: "string \<Rightarrow> bool" where
  "name_ok s \<longleftrightarrow> (\<forall>c \<in> set s. \<not> isspace c \<and> c \<noteq> CHR ''.'')"

text \<open>The columns of a category, given by the strings that they hold.\<close>

definition text_columns :: "(string \<times> string list) list \<Rightarrow> (string, 'f CIFColumn) dict" where
  "text_columns kxs = map (\<lambda>(k, xs). (k, column_of_text xs)) kxs"

definition text_category ::
    "string \<Rightarrow> nat option \<Rightarrow> (string \<times> string list) list \<Rightarrow> 'f CIFCategory" where
  "text_category n rc kxs = \<lparr>cat_name = Some n, cat_row_count = rc, cat_columns = text_columns kxs\<rparr>"

text \<open>The lines of a serialized category, each as its tokens and the blanks after them.\<close>

definition key_token :: "string \<Rightarrow> string \<Rightarrow> string" where
  "key_token n k = ''_'' @ n @ ''.'' @ k"

definition single_rows :: "string \<Rightarrow> (string \<times> string list) list \<Rightarrow> (string \<times> nat) list list" where
  "single_rows n kxs =
     map (\<lambda>(k, xs).
       [(key_token n k,
         fold max (map (\<lambda>(k, xs). length (key_token n k)) kxs) 0 + 3 - length (key_token n k)),
        (hd xs, 0)]) kxs"

definition looped_rows ::
    "string \<Rightarrow> (string \<times> string list) list \<Rightarrow> nat \<Rightarrow> (string \<times> nat) list list" where
  "looped_rows n kxs rc =
     [(''loop_'', 0)] # map (\<lambda>(k, xs). [(key_token n k, 1)]) kxs @
     map (\<lambda>i. map (\<lambda>(k, xs). (xs ! i, n_chars xs - length (xs ! i))) kxs) [0..<rc]"

definition category_rows ::
    "string \<Rightarrow> (string \<times> string list) list \<Rightarrow> nat \<Rightarrow> (string \<times> nat) list list" where
  "category_rows n kxs rc = (if rc = 1 then single_rows n kxs else looped_rows n kxs rc)"

text \<open>The conditions on the columns.\<close>

definition plain_columns :: "(string \<times> string list) list \<Rightarrow> nat \<Rightarrow> bool" where
  "plain_columns kxs rc \<longleftrightarrow>
     kxs \<noteq> [] \<and> distinct (map fst kxs) \<and> 1 \<le> rc \<and>
     (\<forall>(k, xs) \<in> set kxs. name_ok k \<and> length xs = rc \<and> (\<forall>x \<in> set xs. plain x))"

text \<open>A line of words that is neither blank nor a comment.\<close>

definition line_row :: "(string \<times> nat) list \<Rightarrow> bool" where
  "line_row row \<longleftrightarrow>
     row \<noteq> [] \<and> (\<forall>(t, p) \<in> set row. word t) \<and> separated row \<and> hd (fst (hd row)) \<noteq> CHR ''#''"

text \<open>A category whose only value is wrapped in single quotes.\<close>

definition quoted_value_category :: "unit CIFCategory" where
  "quoted_value_category = new_category (Some ''n'') [(''c'', text_column [[SQ] @ ''a'' @ [SQ]])]"

subsection \<open>Blocks and files of plain text\<close>

text \<open>A category of plain text: its name, the row count that it has cached, and its
  columns; the number of rows is the length of the first column.\<close>

type_synonym category_spec = "string \<times> nat option \<times> (string \<times> string list) list"

definition row_number :: "(string \<times> string list) list \<Rightarrow> nat" where
  "row_number kxs = length (snd (hd kxs))"

definition plain_category :: "category_spec \<Rightarrow> bool" where
  "plain_category c \<longleftrightarrow>
     (case c of (n, cache, kxs) \<Rightarrow>
        name_ok n \<and> plain_columns kxs (row_number kxs) \<and>
        (cache = None \<or> cache = Some (row_number kxs)))"

definition category_of :: "category_spec \<Rightarrow> 'f CIFCategory" where
  "category_of c = (case c of (n, cache, kxs) \<Rightarrow> text_category n cache kxs)"

text \<open>The lines that a category of a block is written as, the comment line included.\<close>

definition category_lines :: "category_spec \<Rightarrow> string list" where
  "category_lines c =
     (case c of (n, cache, kxs) \<Rightarrow> map pad_join (category_rows n kxs (row_number kxs)) @ [''#''])"

text \<open>A block of such categories, each under its name.\<close>

definition text_block :: "category_spec list \<Rightarrow> 'f CIFBlock" where
  "text_block cs = map (\<lambda>c. (Some (fst c), Category (category_of c))) cs"

definition plain_block :: "category_spec list \<Rightarrow> bool" where
  "plain_block cs \<longleftrightarrow> distinct (map fst cs) \<and> (\<forall>c \<in> set cs. plain_category c)"

text \<open>The starts of consecutive named segments of lines.\<close>

fun starts_of :: "nat \<Rightarrow> ('k \<times> string list) list \<Rightarrow> (nat \<times> 'k) list" where
  "starts_of i [] = []"
| "starts_of i ((k, s) # r) = (i, k) # starts_of (i + length s) r"

text \<open>A line that opens no category after one of name \<open>n\<close>, and no block.\<close>

definition quiet :: "string \<Rightarrow> string \<Rightarrow> bool" where
  "quiet n l \<longleftrightarrow>
     (is_empty l \<or>
      (\<not> is_loop_start l \<and>
       (parse_category_name l = Inr None \<or> parse_category_name l = Inr (Some n)))) \<and>
     (is_empty l \<or> parse_data_block_name l = None) \<and>
     (\<forall>c \<in> set l. \<not> is_linebreak c)"

text \<open>A file of such blocks, each under its name, and the lines that a block of a file is
  written as.\<close>

type_synonym block_spec = "string \<times> category_spec list"

definition file_lines :: "block_spec \<Rightarrow> string list" where
  "file_lines b = (''data_'' @ fst b) # ''#'' # concat (map category_lines (snd b))"

definition text_file :: "block_spec list \<Rightarrow> 'f CIFFile" where
  "text_file bs = map (\<lambda>b. (fst b, Block (text_block (snd b)))) bs"

definition plain_file :: "block_spec list \<Rightarrow> bool" where
  "plain_file bs \<longleftrightarrow>
     distinct (map fst bs) \<and>
     (\<forall>b \<in> set bs. (\<forall>c \<in> set (fst b). \<not> is_linebreak c) \<and> plain_block (snd b))"

text \<open>Two categories, a block and a file of them.\<close>

definition two_columns :: category_spec where
  "two_columns = (''n'', None, [(''a'', [''1'', ''2'']), (''b'', [''x'', ''yz''])])"

definition one_row :: category_spec where
  "one_row = (''m'', None, [(''k'', [''v''])])"

definition two_blocks :: "block_spec list" where
  "two_blocks = [(''x'', [two_columns, one_row]), (''y'', [])]"

section \<open>Properties\<close>

subsection \<open>Quoting\<close>

text \<open>
  C5, as the specification states it, fails for a value with a leading underscore:
  the code wraps \<^verbatim>\<open>_a\<close> in single quotes, the specification asks for double quotes.
\<close>

theorem quote_underscore_counterexample:
  "quote ''_a'' = [SQ] @ ''_a'' @ [SQ] \<and> quote ''_a'' \<noteq> quote_spec ''_a''"
  by (simp add: quote_def quote_spec_def wrapped_in_def)

text \<open>
  C5 (amended): \<^verbatim>\<open>_quote\<close> maps the empty string to two single quotes; a string of at
  least two characters that begins and ends with the same quote character passes
  through unchanged; otherwise a string that begins with an underscore is wrapped in
  single quotes; otherwise a string that contains a single quote is wrapped in double
  quotes; otherwise a string that contains a double quote, a blank, a tab or a line feed
  is wrapped in single quotes; any other string is returned as it is.  The four examples
  of the specification hold.
\<close>

theorem quote_rule:
  "quote v = quote_amended v \<and>
   quote [] = [SQ, SQ] \<and> quote ''plain'' = ''plain'' \<and>
   quote ''has space'' = [SQ] @ ''has space'' @ [SQ] \<and>
   quote (''it'' @ [SQ] @ ''s'') = [DQ] @ ''it'' @ [SQ] @ ''s'' @ [DQ]"
  by (simp add: quote_def quote_amended_def wrapped_in_def)

subsection \<open>Mask inference\<close>

lemma rstrip_nul_idem [simp]: "rstrip_nul (rstrip_nul s) = rstrip_nul s"
proof -
  have "dropWhile (\<lambda>c. c = NUL) (dropWhile (\<lambda>c. c = NUL) xs) = dropWhile (\<lambda>c. c = NUL) xs"
    for xs :: string
    by (induction xs) simp_all
  then show ?thesis by (simp add: rstrip_nul_def)
qed

lemma rstrip_nul_map [simp]: "map rstrip_nul (map rstrip_nul xs) = map rstrip_nul xs"
  by simp

lemma rstrip_nul_id: "s = [] \<or> last s \<noteq> NUL \<Longrightarrow> rstrip_nul s = s"
  by (cases s rule: rev_cases) (simp_all add: rstrip_nul_def)

lemma rstrip_nul_last: "rstrip_nul s = [] \<or> last (rstrip_nul s) \<noteq> NUL"
proof -
  have "dropWhile (\<lambda>c. c = NUL) xs = [] \<or> hd (dropWhile (\<lambda>c. c = NUL) xs) \<noteq> NUL"
    for xs :: string
    using hd_dropWhile [of "\<lambda>c. c = NUL" xs] by blast
  from this [of "rev s"] show ?thesis
    by (auto simp: rstrip_nul_def last_rev)
qed

lemma rstrip_nul_sentinels [simp]: "rstrip_nul ''.'' = ''.''" "rstrip_nul ''?'' = ''?''"
  by (simp_all add: rstrip_nul_def)

lemma inferred_mask_text:
  "inferred_mask (StrArray xs) = map (\<lambda>x. presence_code (rstrip_nul x)) xs"
  by (induction xs) (auto simp: inferred_mask_def assign_where_def presence_code_def MaskValue_defs)

lemma restore_sentinels:
  "assign_where (assign_where xs (map (\<lambda>v. v = INAPPLICABLE) (map presence_code xs)) ''.'')
     (map (\<lambda>v. v = MISSING) (map presence_code xs)) ''?'' = xs"
  by (induction xs) (auto simp: assign_where_def presence_code_def MaskValue_defs)

lemma as_array_inferred:
  "as_array F \<lparr>col_data = StrArray xs, col_mask = Some (map presence_code (map rstrip_nul xs))\<rparr> =
     Inr (map rstrip_nul xs)"
  using restore_sentinels [of "map rstrip_nul xs"] by (simp add: as_array_def bind_def Let_def)

lemma CIFColumn_of_text_elements:
  assumes "elements d \<noteq> []"
  shows "CIFColumn_of_text d = Inr (column_of_text (elements d))"
  using assms
  by (cases d)
    (simp_all add: CIFColumn_of_text_def CIFData_of_text_def bind_def CIFColumn_init_def
      column_of_text_def Let_def inferred_mask_text list_all_iff elements_def)

lemma as_array_text: "as_array F (column_of_text xs) = Inr (map rstrip_nul xs)"
proof (cases "list_all (\<lambda>y. presence_code y = PRESENT) (map rstrip_nul xs)")
  case True
  then have "column_of_text xs = (\<lparr>col_data = StrArray (map rstrip_nul xs), col_mask = None\<rparr>
      :: 'a CIFColumn)"
    by (simp add: column_of_text_def Let_def)
  then show ?thesis
    by (simp add: as_array_def del: map_map)
next
  case False
  then have "column_of_text xs = (\<lparr>col_data = StrArray (map rstrip_nul xs),
      col_mask = Some (map presence_code (map rstrip_nul (map rstrip_nul xs)))\<rparr> :: 'a CIFColumn)"
    by (simp add: column_of_text_def Let_def del: map_map)
  then show ?thesis
    using as_array_inferred [of F "map rstrip_nul xs"] by (simp del: map_map)
qed

text \<open>
  C3, as the specification states it, fails for a string that ends in NUL: the array
  cannot hold the NUL, and \<^verbatim>\<open>as_array()\<close> gives the string without it.
\<close>

theorem trailing_nul_counterexample:
  "CIFColumn_of_text (StrList [nul_terminated]) =
     Inr \<lparr>col_data = StrArray [''a''], col_mask = None\<rparr> \<and>
   as_array text_only \<lparr>col_data = StrArray [''a''], col_mask = None\<rparr> = Inr [''a''] \<and>
   [''a''] \<noteq> [nul_terminated]"
  by (simp add: CIFColumn_of_text_def CIFData_of_text_def bind_def CIFColumn_init_def
      inferred_mask_def assign_where_def as_array_def nul_terminated_def rstrip_nul_def
      MaskValue_defs)

text \<open>
  C3 (amended): the constructor of a column, called without a mask on a string or on a list
  of at least one string, succeeds.  The array holds each string without the NUL
  characters at its end.  The codes are inferred from the strings as the array holds
  them (\<^verbatim>\<open>.\<close> is INAPPLICABLE, \<^verbatim>\<open>?\<close> is MISSING, anything else PRESENT); the mask is \<^verbatim>\<open>None\<close>
  exactly when every code is PRESENT and is the array of the codes otherwise; and
  \<^verbatim>\<open>as_array()\<close> gives back the strings as the array holds them, which are the strings
  that the column was made from when none of them ends in NUL.
\<close>

theorem mask_inference:
  assumes "elements d \<noteq> []"
  shows "\<exists>col. CIFColumn_of_text d = Inr col \<and>
     col_data col = StrArray (map rstrip_nul (elements d)) \<and>
     inferred_mask (col_data col) = map presence_code (map rstrip_nul (elements d)) \<and>
     (col_mask col = None \<longleftrightarrow> (\<forall>x \<in> set (elements d). presence_code (rstrip_nul x) = PRESENT)) \<and>
     (col_mask col \<noteq> None \<longrightarrow>
        col_mask col = Some (map presence_code (map rstrip_nul (elements d)))) \<and>
     as_array F col = Inr (map rstrip_nul (elements d)) \<and>
     ((\<forall>x \<in> set (elements d). x = [] \<or> last x \<noteq> NUL) \<longrightarrow>
        as_array F col = Inr (elements d))"
proof -
  let ?col = "column_of_text (elements d) :: 'a CIFColumn"
  have id: "map rstrip_nul (elements d) = elements d"
    if "\<forall>x \<in> set (elements d). x = [] \<or> last x \<noteq> NUL"
    using that by (intro map_idI) (simp add: rstrip_nul_id)
  have "CIFColumn_of_text d = Inr ?col"
    using assms by (rule CIFColumn_of_text_elements)
  moreover have "col_data ?col = StrArray (map rstrip_nul (elements d))"
    by (simp add: column_of_text_def Let_def)
  moreover have "inferred_mask (col_data ?col) = map presence_code (map rstrip_nul (elements d))"
    by (simp add: column_of_text_def Let_def inferred_mask_text o_def)
  moreover have "col_mask ?col = None \<longleftrightarrow>
      (\<forall>x \<in> set (elements d). presence_code (rstrip_nul x) = PRESENT)"
    by (simp add: column_of_text_def Let_def list_all_iff)
  moreover have "col_mask ?col \<noteq> None \<longrightarrow>
      col_mask ?col = Some (map presence_code (map rstrip_nul (elements d)))"
    by (simp add: column_of_text_def Let_def)
  moreover have "as_array F ?col = Inr (map rstrip_nul (elements d))"
    by (rule as_array_text)
  ultimately show ?thesis
    using id by (intro exI [of _ ?col]) simp
qed

theorem mask_inference_witness:
  "\<exists>col. CIFColumn_of_text (StrList [''a'', ''.'', ''?'', ''b'']) = Inr col \<and>
     col_mask col = Some [PRESENT, INAPPLICABLE, MISSING, PRESENT] \<and>
     as_array text_only col = Inr [''a'', ''.'', ''?'', ''b'']"
proof -
  have ne: "elements (StrList [''a'', ''.'', ''?'', ''b'']) \<noteq> []"
    by (simp add: elements_def)
  have codes: "map presence_code (map rstrip_nul [''a'', ''.'', ''?'', ''b'']) =
      [PRESENT, INAPPLICABLE, MISSING, PRESENT]"
    by (simp add: presence_code_def rstrip_nul_def MaskValue_defs)
  show ?thesis
    using mask_inference [OF ne, of text_only]
    by (auto simp: elements_def codes presence_code_def rstrip_nul_def MaskValue_defs)
qed

subsection \<open>The only item of a column\<close>

text \<open>
  C4: for a column of one floating-point number without a mask, \<^verbatim>\<open>as_item()\<close> returns
  the number itself and not its text with three decimals; the rendering with three
  decimals is reached only under a mask whose code is PRESENT.  A masked item gives
  \<^verbatim>\<open>.\<close> or \<^verbatim>\<open>?\<close>.
\<close>

theorem as_item_unmasked_float:
  "as_item F \<lparr>col_data = FloatArray [x], col_mask = None\<rparr> = Inr (PyFloat x) \<and>
   as_item F \<lparr>col_data = FloatArray [x], col_mask = None\<rparr> \<noteq> Inr (PyStr (format_3f F x)) \<and>
   as_item F \<lparr>col_data = FloatArray [x], col_mask = Some [PRESENT]\<rparr> = Inr (PyStr (format_3f F x)) \<and>
   as_item F \<lparr>col_data = FloatArray [x], col_mask = Some [INAPPLICABLE]\<rparr> = Inr (PyStr ''.'') \<and>
   as_item F \<lparr>col_data = FloatArray [x], col_mask = Some [MISSING]\<rparr> = Inr (PyStr ''?'')"
  by (simp add: as_item_def item_def bind_def MaskValue_defs)

subsection \<open>Deleting columns\<close>

text \<open>
  C9: deleting a column of a category with exactly one column fails with \<^verbatim>\<open>ValueError\<close> and
  leaves the category as it was; a deletion that succeeds was made on a category with
  more than one column and removes the column of that key.
\<close>

theorem delete_last_column:
  "(length (cat_columns c) = 1 \<longrightarrow>
      CIFCategory_delitem c key = (Inl (ValueError ''At least one column must remain''), c)) \<and>
   (fst (CIFCategory_delitem c key) = Inr () \<longrightarrow>
      length (cat_columns c) > 1 \<and> key \<in> set (map fst (cat_columns c)) \<and>
      snd (CIFCategory_delitem c key) = c\<lparr>cat_columns := dict_del key (cat_columns c)\<rparr>)"
  by (cases "cat_columns c") (auto simp: CIFCategory_delitem_def)

theorem delete_last_column_witness:
  "CIFCategory_delitem (new_category (Some ''c'') [(''a'', text_column [''1''])]) ''a'' =
     (Inl (ValueError ''At least one column must remain''),
      new_category (Some ''c'') [(''a'', text_column [''1''])]) \<and>
   CIFCategory_delitem
     (new_category (Some ''c'') [(''a'', text_column [''1'']), (''b'', text_column [''2''])]) ''a'' =
     (Inr (), new_category (Some ''c'') [(''b'', text_column [''2''])])"
  using delete_last_column [of "new_category (Some ''c'') [(''a'', text_column [''1''])]" "''a''"]
    delete_last_column [of "new_category (Some ''c'') [(''a'', text_column [''1'']), (''b'', text_column [''2''])]" "''a''"]
  by (simp add: new_category_def CIFCategory_delitem_def)

subsection \<open>Serialization of a category\<close>

lemma check_lengths_Some:
  "check_lengths (Some n) cols =
     (case filter (\<lambda>(k, col). column_len col \<noteq> n) cols of
        [] \<Rightarrow> (None, Some n)
      | (k, col) # _ \<Rightarrow> (Some (SerializationError (length_message k (column_len col) n)), Some n))"
  by (induction cols) (auto split: list.splits)

lemma check_lengths_row_count:
  "snd (check_lengths (Some n) cols) = Some n"
  by (simp add: check_lengths_Some split: list.splits)

lemma check_lengths_error:
  "fst (check_lengths (Some n) cols) = None \<longleftrightarrow> (\<forall>(k, col) \<in> set cols. column_len col = n)"
  by (induction cols) (auto split: if_splits)

lemma check_lengths_error_class:
  "fst (check_lengths rc cols) = Some e \<Longrightarrow> \<exists>msg. e = SerializationError msg"
  by (induction rc cols rule: check_lengths.induct) (auto split: option.splits if_splits)

text \<open>
  C10: when \<^verbatim>\<open>serialize\<close> is called on a named category whose row count has not been
  computed and some column has another length than the first, it raises
  \<^verbatim>\<open>SerializationError\<close> and leaves the length of the first column as the row count of the
  category, which a later read of \<^verbatim>\<open>row_count\<close> returns.
\<close>

theorem serialize_caches_row_count:
  assumes "cat_name c \<noteq> None" and "cat_columns c = (key, col) # rest"
    and "cat_row_count c = None"
    and "\<exists>(k, col') \<in> set rest. column_len col' \<noteq> column_len col"
  shows "\<exists>msg. CIFCategory_serialize F c =
           (Inl (SerializationError msg), c\<lparr>cat_row_count := Some (column_len col)\<rparr>) \<and>
         fst (row_count (snd (CIFCategory_serialize F c))) = Inr (column_len col)"
proof -
  have "fst (check_lengths (Some (column_len col)) rest) \<noteq> None"
    using assms(4) by (auto simp: check_lengths_error)
  then obtain e where e: "fst (check_lengths (Some (column_len col)) rest) = Some e"
    by auto
  then obtain msg where msg: "e = SerializationError msg"
    using check_lengths_error_class by blast
  have "check_lengths (Some (column_len col)) rest = (Some e, Some (column_len col))"
    using e check_lengths_row_count [of "column_len col" rest] by (simp add: prod_eq_iff)
  then have "CIFCategory_serialize F c =
      (Inl (SerializationError msg), c\<lparr>cat_row_count := Some (column_len col)\<rparr>)"
    using assms(1-3) msg by (auto simp: CIFCategory_serialize_def)
  then show ?thesis
    by (simp add: row_count_def)
qed

theorem serialize_caches_row_count_witness:
  "\<exists>msg. CIFCategory_serialize text_only
       (new_category (Some ''c'') [(''a'', text_column [''1'', ''2'']), (''b'', text_column [''3''])]) =
     (Inl (SerializationError msg),
      (new_category (Some ''c'') [(''a'', text_column [''1'', ''2'']), (''b'', text_column [''3''])])
        \<lparr>cat_row_count := Some 2\<rparr>)"
  using serialize_caches_row_count [of
      "new_category (Some ''c'') [(''a'', text_column [''1'', ''2'']), (''b'', text_column [''3''])]"
      "''a''" "text_column [''1'', ''2'']" "[(''b'', text_column [''3''])]" text_only]
  by (simp add: new_category_def text_column_def column_len_def numeral_2_eq_2)

lemma check_lengths_result:
  "snd (check_lengths rc cols) =
     (case rc of Some n \<Rightarrow> Some n
      | None \<Rightarrow> (case cols of [] \<Rightarrow> None | (k, col) # _ \<Rightarrow> Some (column_len col)))"
  by (cases rc; cases cols) (auto simp: check_lengths_row_count)

lemma check_lengths_ok:
  "fst (check_lengths rc cols) = None \<longleftrightarrow>
     (case rc of Some n \<Rightarrow> (\<forall>(k, col) \<in> set cols. column_len col = n)
      | None \<Rightarrow> (case cols of [] \<Rightarrow> True
                  | (k, col) # rest \<Rightarrow> (\<forall>(k', col') \<in> set rest. column_len col' = column_len col)))"
  by (cases rc; cases cols) (auto simp: check_lengths_error)

lemma serialize_cases:
  assumes "cat_name c \<noteq> None" "cat_columns c \<noteq> []"
  shows "fst (CIFCategory_serialize F c) =
     (case fst (check_lengths (cat_row_count c) (cat_columns c)) of
        Some e \<Rightarrow> Inl e
      | None \<Rightarrow>
          (let rc = snd (check_lengths (cat_row_count c) (cat_columns c));
               c' = c\<lparr>cat_row_count := rc\<rparr>
           in bind (if rc = Some 0 then Inl (ValueError ''At least one row is required'')
                    else if rc = Some 1 then serialize_single F c'
                    else serialize_looped F c')
                (\<lambda>lines. Inr (join [LF] (lines @ [[]])))))"
  using assms
  by (cases "check_lengths (cat_row_count c) (cat_columns c)")
    (auto simp: CIFCategory_serialize_def Let_def split: option.splits)

text \<open>
  C6 (amended): \<^verbatim>\<open>serialize\<close> returns no text and raises \<^verbatim>\<open>SerializationError\<close> when the name
  is missing or, with a name, two columns differ in length; with a name it raises
  \<^verbatim>\<open>ValueError\<close> when there is no column or when every column is empty (and the cached
  row count does not say otherwise).  When it returns a text, the name is set, there is
  a column, and all columns have one length, which is at least 1.
\<close>

theorem serialize_failures:
  "(cat_name c = None \<longrightarrow>
      fst (CIFCategory_serialize F c) = Inl (SerializationError ''Category name is required'')) \<and>
   (cat_name c \<noteq> None \<and> cat_columns c = [] \<longrightarrow>
      fst (CIFCategory_serialize F c) = Inl (ValueError ''At least one column is required'')) \<and>
   (cat_name c \<noteq> None \<and>
    (\<exists>(k, x) \<in> set (cat_columns c). \<exists>(k', y) \<in> set (cat_columns c). column_len x \<noteq> column_len y) \<longrightarrow>
      (\<exists>msg. fst (CIFCategory_serialize F c) = Inl (SerializationError msg))) \<and>
   (cat_name c \<noteq> None \<and> cat_columns c \<noteq> [] \<and> cat_row_count c \<in> {None, Some 0} \<and>
    (\<forall>(k, x) \<in> set (cat_columns c). column_len x = 0) \<longrightarrow>
      fst (CIFCategory_serialize F c) = Inl (ValueError ''At least one row is required'')) \<and>
   (\<forall>text. fst (CIFCategory_serialize F c) = Inr text \<longrightarrow>
      cat_name c \<noteq> None \<and> cat_columns c \<noteq> [] \<and>
      (\<exists>n\<ge>1. \<forall>(k, x) \<in> set (cat_columns c). column_len x = n))"
proof (intro conjI impI allI)
  assume "cat_name c = None"
  then show "fst (CIFCategory_serialize F c) = Inl (SerializationError ''Category name is required'')"
    by (simp add: CIFCategory_serialize_def)
next
  assume "cat_name c \<noteq> None \<and> cat_columns c = []"
  then show "fst (CIFCategory_serialize F c) = Inl (ValueError ''At least one column is required'')"
    by (auto simp: CIFCategory_serialize_def)
next
  assume a: "cat_name c \<noteq> None \<and>
    (\<exists>(k, x) \<in> set (cat_columns c). \<exists>(k', y) \<in> set (cat_columns c). column_len x \<noteq> column_len y)"
  then have ne: "cat_columns c \<noteq> []" by auto
  have "fst (check_lengths (cat_row_count c) (cat_columns c)) \<noteq> None"
  proof
    assume "fst (check_lengths (cat_row_count c) (cat_columns c)) = None"
    then have "\<exists>n. \<forall>(k, col) \<in> set (cat_columns c). column_len col = n"
      unfolding check_lengths_ok using ne
      by (cases "cat_row_count c"; cases "cat_columns c") auto
    then obtain n where n: "\<And>k col. (k, col) \<in> set (cat_columns c) \<Longrightarrow> column_len col = n"
      by blast
    moreover from a obtain k x k' y where "(k, x) \<in> set (cat_columns c)"
      "(k', y) \<in> set (cat_columns c)" "column_len x \<noteq> column_len y"
      by blast
    ultimately show False by force
  qed
  then obtain e where e: "fst (check_lengths (cat_row_count c) (cat_columns c)) = Some e"
    by auto
  then obtain msg where "e = SerializationError msg"
    using check_lengths_error_class by blast
  with a ne e show "\<exists>msg. fst (CIFCategory_serialize F c) = Inl (SerializationError msg)"
    by (simp add: serialize_cases)
next
  assume a: "cat_name c \<noteq> None \<and> cat_columns c \<noteq> [] \<and> cat_row_count c \<in> {None, Some 0} \<and>
    (\<forall>(k, x) \<in> set (cat_columns c). column_len x = 0)"
  then have "fst (check_lengths (cat_row_count c) (cat_columns c)) = None"
    unfolding check_lengths_ok by (cases "cat_columns c") auto
  moreover from a have "snd (check_lengths (cat_row_count c) (cat_columns c)) = Some 0"
    unfolding check_lengths_result by (cases "cat_columns c") auto
  ultimately show "fst (CIFCategory_serialize F c) = Inl (ValueError ''At least one row is required'')"
    using a by (simp add: serialize_cases bind_def)
next
  fix t
  assume ok: "fst (CIFCategory_serialize F c) = Inr t"
  have name: "cat_name c \<noteq> None"
    using ok by (auto simp: CIFCategory_serialize_def split: if_splits)
  then show "cat_name c \<noteq> None" .
  show ne: "cat_columns c \<noteq> []"
    using ok name by (auto simp: CIFCategory_serialize_def split: if_splits)
  have chk: "fst (check_lengths (cat_row_count c) (cat_columns c)) = None"
    using ok name ne by (simp add: serialize_cases split: option.splits)
  obtain n where n: "snd (check_lengths (cat_row_count c) (cat_columns c)) = Some n"
    using ne unfolding check_lengths_result
    by (cases "cat_row_count c"; cases "cat_columns c") auto
  have "n \<noteq> 0"
    using ok name ne chk n by (auto simp: serialize_cases bind_def Let_def split: if_splits)
  moreover have "\<forall>(k, x) \<in> set (cat_columns c). column_len x = n"
    using chk n ne unfolding check_lengths_ok check_lengths_result
    by (cases "cat_row_count c"; cases "cat_columns c") auto
  ultimately show "\<exists>n\<ge>1. \<forall>(k, x) \<in> set (cat_columns c). column_len x = n"
    by (intro exI [of _ n]) simp
qed

text \<open>
  C6, as the specification states it, fails for a category without columns: the
  exception is a \<^verbatim>\<open>ValueError\<close>, not a \<^verbatim>\<open>SerializationError\<close>.
\<close>

theorem serialize_no_columns_counterexample:
  "fst (CIFCategory_serialize text_only (new_category (Some ''c'') [])) =
     Inl (ValueError ''At least one column is required'') \<and>
   (\<nexists>msg. fst (CIFCategory_serialize text_only (new_category (Some ''c'') [])) =
     Inl (SerializationError msg))"
  by (simp add: CIFCategory_serialize_def new_category_def)

lemma serialize_one_value:
  "fst (CIFCategory_serialize text_only (new_category (Some ''c'') [(''a'', text_column [''1''])])) =
     Inr (''_c.a   1'' @ [LF])"
  by code_simp

theorem serialize_failures_witness:
  "fst (CIFCategory_serialize text_only (new_category None [(''a'', text_column [''1''])])) =
     Inl (SerializationError ''Category name is required'') \<and>
   fst (CIFCategory_serialize text_only (new_category (Some ''c'') [])) =
     Inl (ValueError ''At least one column is required'') \<and>
   (\<exists>msg. fst (CIFCategory_serialize text_only
      (new_category (Some ''c'') [(''a'', text_column [''1'', ''2'']), (''b'', text_column [''3''])])) =
     Inl (SerializationError msg)) \<and>
   fst (CIFCategory_serialize text_only (new_category (Some ''c'') [(''a'', text_column [])])) =
     Inl (ValueError ''At least one row is required'') \<and>
   fst (CIFCategory_serialize text_only (new_category (Some ''c'') [(''a'', text_column [''1''])])) =
     Inr (''_c.a   1'' @ [LF]) \<and>
   (\<exists>n\<ge>1. \<forall>(k, x) \<in> set (cat_columns (new_category (Some ''c'') [(''a'', text_column [''1''])])).
      column_len x = n)"
  using serialize_failures [of "new_category None [(''a'', text_column [''1''])]" text_only]
    serialize_failures [of "new_category (Some ''c'') []" text_only]
    serialize_failures [of "new_category (Some ''c'')
      [(''a'', text_column [''1'', ''2'']), (''b'', text_column [''3''])]" text_only]
    serialize_failures [of "new_category (Some ''c'') [(''a'', text_column [])]" text_only]
    serialize_failures [of "new_category (Some ''c'') [(''a'', text_column [''1''])]" text_only]
    serialize_one_value
  by (auto simp: new_category_def text_column_def column_len_def)

subsection \<open>Lazy slots\<close>

text \<open>
  C7: when reading a slot that holds text fails, the exception is a
  \<^verbatim>\<open>DeserializationError\<close> whose message names the key of the category or block, and the
  container is left as it was: the slot still holds its text.
\<close>

theorem lazy_parse_failure:
  "(map_of b key = Some (CategoryText t) \<and> fst (CIFBlock_getitem b key) = Inl e \<longrightarrow>
      e = DeserializationError (''Failed to deserialize category '' @ [SQ] @ key_str key @ [SQ]) \<and>
      snd (CIFBlock_getitem b key) = b \<and> map_of (snd (CIFBlock_getitem b key)) key = Some (CategoryText t)) \<and>
   (map_of f name = Some (BlockText t') \<and> fst (CIFFile_getitem f name) = Inl e' \<longrightarrow>
      e' = DeserializationError (''Failed to deserialize block '' @ [SQ] @ name @ [SQ]) \<and>
      snd (CIFFile_getitem f name) = f \<and> map_of (snd (CIFFile_getitem f name)) name = Some (BlockText t'))"
  by (auto simp: CIFBlock_getitem_def CIFFile_getitem_def Let_def split: sum.splits)

lemma bad_category_text:
  "(CIFCategory_deserialize ''foo'' True :: error + unit CIFCategory) =
     Inl (DeserializationError ''Failed to parse category name'')"
  by code_simp

lemma bad_block_text: "(CIFBlock_deserialize ''loop_'' :: error + unit CIFBlock) = Inl IndexError"
  by code_simp

theorem lazy_parse_failure_witness:
  "CIFBlock_getitem [(Some ''x'', CategoryText ''foo'' :: unit category_slot)] (Some ''x'') =
     (Inl (DeserializationError (''Failed to deserialize category '' @ [SQ] @ ''x'' @ [SQ])),
      [(Some ''x'', CategoryText ''foo'')]) \<and>
   CIFFile_getitem [(''y'', BlockText ''loop_'' :: unit block_slot)] ''y'' =
     (Inl (DeserializationError (''Failed to deserialize block '' @ [SQ] @ ''y'' @ [SQ])),
      [(''y'', BlockText ''loop_'')])"
  using lazy_parse_failure [of "[(Some ''x'', CategoryText ''foo'' :: unit category_slot)]"
      "Some ''x''" "''foo''" _ "[(''y'', BlockText ''loop_'' :: unit block_slot)]" "''y''" "''loop_''"]
    bad_category_text bad_block_text
  by (simp add: CIFBlock_getitem_def CIFFile_getitem_def key_str_def)

subsection \<open>Looped categories: the round robin\<close>













lemma CIFColumn_of_text_one:
  "CIFColumn_of_text (OneStr x) = Inr (column_of_text [x])"
  by (simp add: CIFColumn_of_text_def CIFData_of_text_def bind_def CIFColumn_init_def
      column_of_text_def Let_def inferred_mask_text list_all_iff)






lemma content_lines_nonempty: "l \<in> set (content_lines text) \<Longrightarrow> l \<noteq> []"
  by (auto simp: content_lines_def is_empty_def)

lemma to_single_loop_looped:
  assumes "\<forall>l \<in> set ls. l \<noteq> [] \<and> hd l \<noteq> CHR '';''"
  shows "to_single_loop True ls out = Inr (out @ ls)"
  using assms
proof (induction ls arbitrary: out)
  case Nil
  then show ?case by simp
next
  case (Cons l ls)
  then obtain c cs where "l = c # cs" "c \<noteq> CHR '';''"
    by (cases l) auto
  with Cons show ?case by simp
qed


lemma mapM_Inr:
  assumes "\<And>x. x \<in> set xs \<Longrightarrow> f x = Inr (g x)"
  shows "mapM f xs = Inr (map g xs)"
  using assms by (induction xs) (simp_all add: bind_def)









subsection \<open>Access to lazy slots and serialization\<close>

lemma serialize_categories_append:
  "fst (serialize_categories F (xs @ ys)) =
     bind (fst (serialize_categories F xs)) (\<lambda>a.
       bind (fst (serialize_categories F ys)) (\<lambda>z. Inr (a @ z)))"
proof (induction xs)
  case Nil
  then show ?case
    by (cases "fst (serialize_categories F ys)") (simp_all add: bind_def)
next
  case (Cons p xs)
  obtain k slot where p: "p = (k, slot)" by (cases p)
  show ?case
  proof (cases slot)
    case (CategoryText t)
    with p Cons show ?thesis
      by (auto simp: bind_def split: prod.splits sum.splits)
  next
    case (Category c)
    with p Cons show ?thesis
      by (auto simp: bind_def split: prod.splits sum.splits)
  qed
qed

lemma CIFBlock_serialize_fst:
  "fst (CIFBlock_serialize F b) =
     bind (fst (serialize_categories F b)) (\<lambda>text_blocks. Inr (concat text_blocks))"
  by (simp add: CIFBlock_serialize_def split: prod.splits)

lemma CIFBlock_serialize_append:
  "fst (CIFBlock_serialize F (xs @ ys)) =
     bind (fst (CIFBlock_serialize F xs)) (\<lambda>a.
       bind (fst (CIFBlock_serialize F ys)) (\<lambda>z. Inr (a @ z)))"
  unfolding CIFBlock_serialize_fst serialize_categories_append
  by (cases "fst (serialize_categories F xs)"; cases "fst (serialize_categories F ys)")
    (simp_all add: bind_def)

lemma CIFBlock_serialize_text:
  "fst (CIFBlock_serialize F ((k, CategoryText t) # ys)) =
     bind (fst (CIFBlock_serialize F ys)) (\<lambda>z. Inr (t @ z))"
  unfolding CIFBlock_serialize_fst
  by (cases "serialize_categories F ys"; cases "fst (serialize_categories F ys)")
    (simp_all add: bind_def)

lemma CIFBlock_serialize_category:
  "fst (CIFBlock_serialize F ((k, Category c) # ys)) =
     bind (category_text F k c) (\<lambda>m. bind (fst (CIFBlock_serialize F ys)) (\<lambda>z. Inr (m @ z)))"
  unfolding CIFBlock_serialize_fst
  by (cases "serialize_categories F ys"; cases "fst (serialize_categories F ys)";
      cases "CIFCategory_serialize F (c\<lparr>cat_name := k\<rparr>)";
      cases "fst (CIFCategory_serialize F (c\<lparr>cat_name := k\<rparr>))")
    (simp_all add: bind_def category_text_def)

lemma CIFFile_serialize_fst:
  "fst (CIFFile_serialize F f) =
     bind (fst (serialize_blocks F f)) (\<lambda>text_blocks. Inr (concat text_blocks))"
  by (simp add: CIFFile_serialize_def split: prod.splits)

lemma serialize_blocks_append:
  "fst (serialize_blocks F (xs @ ys)) =
     bind (fst (serialize_blocks F xs)) (\<lambda>a.
       bind (fst (serialize_blocks F ys)) (\<lambda>z. Inr (a @ z)))"
proof (induction xs)
  case Nil
  then show ?case
    by (cases "fst (serialize_blocks F ys)") (simp_all add: bind_def)
next
  case (Cons p xs)
  obtain k slot where p: "p = (k, slot)" by (cases p)
  show ?case
  proof (cases slot)
    case (BlockText t)
    with p Cons show ?thesis
      by (auto simp: bind_def split: prod.splits sum.splits)
  next
    case (Block c)
    with p Cons show ?thesis
      by (auto simp: bind_def split: prod.splits sum.splits)
  qed
qed

lemma CIFFile_serialize_append:
  "fst (CIFFile_serialize F (xs @ ys)) =
     bind (fst (CIFFile_serialize F xs)) (\<lambda>a.
       bind (fst (CIFFile_serialize F ys)) (\<lambda>z. Inr (a @ z)))"
  unfolding CIFFile_serialize_fst serialize_blocks_append
  by (cases "fst (serialize_blocks F xs)"; cases "fst (serialize_blocks F ys)")
    (simp_all add: bind_def)

lemma CIFFile_serialize_text:
  "fst (CIFFile_serialize F ((k, BlockText t) # ys)) =
     bind (fst (CIFFile_serialize F ys)) (\<lambda>z. Inr (block_header k @ t @ z))"
  unfolding CIFFile_serialize_fst
  by (cases "serialize_blocks F ys"; cases "fst (serialize_blocks F ys)")
    (simp_all add: bind_def block_header_def)

lemma CIFFile_serialize_block:
  "fst (CIFFile_serialize F ((k, Block b) # ys)) =
     bind (block_text F k b) (\<lambda>m.
       bind (fst (CIFFile_serialize F ys)) (\<lambda>z. Inr (block_header k @ m @ z)))"
  unfolding CIFFile_serialize_fst
  by (cases "serialize_blocks F ys"; cases "fst (serialize_blocks F ys)";
      cases "CIFBlock_serialize F b"; cases "fst (CIFBlock_serialize F b)")
    (simp_all add: bind_def block_text_def block_header_def)

text \<open>
  C8 fails on the code.  A block is read from the text that serialization gave it.  Before
  any access, serialization writes the texts of the two slots one after the other, and
  the text of a slot lacks its final line break: the first key of the second category
  stands in the comment line of the first, and a reader of this text finds the first
  category only.  After the access to the first category the line break is there.  A
  second access returns the category of the first access and changes nothing.  A file
  that is read and written without any access writes the header of its block twice.
\<close>

theorem lazy_slot_serialization:
  "fst (CIFBlock_serialize text_only two_value_block) = Inr two_value_text \<and>
   CIFBlock_deserialize two_value_text = Inr lazy_block \<and>
   fst (CIFBlock_serialize text_only lazy_block) =
     Inr (''_a.b   1'' @ [LF] @ ''#_c.d   2'' @ [LF] @ ''#'') \<and>
   fst (CIFBlock_getitem lazy_block (Some ''a'')) = Inr one_value_category \<and>
   CIFBlock_getitem (snd (CIFBlock_getitem lazy_block (Some ''a''))) (Some ''a'') =
     CIFBlock_getitem lazy_block (Some ''a'') \<and>
   fst (CIFBlock_serialize text_only (snd (CIFBlock_getitem lazy_block (Some ''a'')))) =
     Inr (''_a.b   1'' @ [LF] @ ''#'' @ [LF] @ ''_c.d   2'' @ [LF] @ ''#'') \<and>
   (CIFBlock_deserialize (''_a.b   1'' @ [LF] @ ''#_c.d   2'' @ [LF] @ ''#'') :: error + unit CIFBlock) =
     Inr [(Some ''a'', CategoryText (''_a.b   1'' @ [LF] @ ''#_c.d   2'' @ [LF] @ ''#''))] \<and>
   fst (CIFFile_serialize text_only [(''x'', Block two_value_block)]) = Inr two_value_file_text \<and>
   CIFFile_deserialize two_value_file_text = lazy_file \<and>
   fst (CIFFile_serialize text_only lazy_file) =
     Inr (''data_x'' @ [LF] @ ''#'' @ [LF] @ ''data_x'' @ [LF] @ ''#'' @ [LF] @
          ''_a.b   1'' @ [LF] @ ''#'' @ [LF] @ ''_c.d   2'' @ [LF] @ ''#'')"
  by code_simp

end
